theory Spec2Isabelle
  imports Complex_Main "HOL-Library.Multiset"
begin

section \<open>Data model\<close>

text \<open>
  The card of \<^verbatim>\<open>types/card.ts\<close>:
  \<^verbatim>\<open>{ id: string; suit: ...; rank: ...; position: number; isHighlighted: boolean }\<close>.
  The field \<^verbatim>\<open>id\<close> is called \<open>card_id\<close> here, since \<open>id\<close> is the identity function of HOL.
\<close>

datatype Suit = hearts | diamonds | clubs | spades

datatype Rank = A | R2 | R3 | R4 | R5 | R6 | R7 | R8 | R9 | R10 | J | Q | K

record Card =
  card_id :: string
  suit :: Suit
  rank :: Rank
  position :: int
  isHighlighted :: bool

text \<open>The \<^verbatim>\<open>action\<close> of a step: \<^verbatim>\<open>'swap' | 'move' | 'split' | 'merge'\<close>.\<close>

datatype Action = Swap | Move | Split | Merge

record ShuffleStep =
  description :: string
  cardIndices :: "int list"
  action :: Action
  fromPositions :: "int list"
  toPositions :: "int list"

text \<open>
  What identifies the card at each place of a deck, apart from the two derived fields
  \<open>position\<close> and \<open>isHighlighted\<close>: two decks have the same card order when these agree.
\<close>

definition card_order :: "Card list \<Rightarrow> (string \<times> Suit \<times> Rank) list" where
  "card_order deck = map (\<lambda>c. (card_id c, suit c, rank c)) deck"

subsection \<open>The random source\<close>

text \<open>
  \<^verbatim>\<open>Math.random()\<close> returns a number \<open>r\<close> with \<open>0 \<le> r < 1\<close>. A value of type \<open>draw\<close> is one
  such result, and a random source \<open>rnd :: nat \<Rightarrow> draw\<close> gives the result of the \<open>k\<close>-th call;
  every loop below carries the number \<open>k\<close> of calls made so far. The products
  \<^verbatim>\<open>Math.random() * n\<close> are taken exactly: the rounding of the double product can change
  which \<open>r\<close> gives which index, but not the range \<open>0 .. n - 1\<close> of \<^verbatim>\<open>Math.floor\<close> of it.
\<close>

typedef draw = "{r::real. 0 \<le> r \<and> r < 1}"
  morphisms draw_val Abs_draw
  by (rule exI [of _ 0]) simp

text \<open>\<^verbatim>\<open>Math.floor(Math.random() * n)\<close>\<close>

definition random_below :: "draw \<Rightarrow> nat \<Rightarrow> nat" where
  "random_below d n = nat \<lfloor>draw_val d * real n\<rfloor>"

subsection \<open>Arrays and strings of the source language\<close>

text \<open>\<^verbatim>\<open>xs.map((card, index) => f(card, index))\<close> on an array without holes.\<close>

definition map_indexed :: "('a \<Rightarrow> nat \<Rightarrow> 'b) \<Rightarrow> 'a list \<Rightarrow> 'b list" where
  "map_indexed f xs = map (\<lambda>(x, i). f x i) (zip xs [0..<length xs])"

text \<open>
  \<^verbatim>\<open>[xs[i], xs[j]] = [xs[j], xs[i]]\<close> with both indices inside the array: the right-hand
  side is read first, then \<open>xs[i]\<close> and \<open>xs[j]\<close> are written in this order.
\<close>

definition swap_at :: "'a list \<Rightarrow> nat \<Rightarrow> nat \<Rightarrow> 'a list" where
  "swap_at xs i j = (xs[i := xs ! j])[j := xs ! i]"

text \<open>\<^verbatim>\<open>Array.from({length: n}, (_, i) => f(i))\<close>\<close>

definition array_from :: "nat \<Rightarrow> (nat \<Rightarrow> 'a) \<Rightarrow> 'a list" where
  "array_from n f = map f [0..<n]"

text \<open>A natural number inside a template string: its decimal digits.\<close>

definition digit_char :: "nat \<Rightarrow> char" where
  "digit_char d = ''0123456789'' ! d"

function string_of_nat :: "nat \<Rightarrow> string" where
  "string_of_nat n =
     (if n < 10 then [digit_char n] else string_of_nat (n div 10) @ [digit_char (n mod 10)])"
  by pat_completeness auto
termination
  by (relation "measure (\<lambda>n. n)") auto

declare string_of_nat.simps [simp del]

section \<open>Fisher-Yates\<close>

text \<open>
  \<^verbatim>\<open>for (let i = shuffledDeck.length - 1; i > 0; i--) {
    const randomIndex = Math.floor(Math.random() * (i + 1));
    [shuffledDeck[i], shuffledDeck[randomIndex]] = [shuffledDeck[randomIndex], shuffledDeck[i]];
  }\<close>
  The loop from the index \<open>i\<close> on, after \<open>k\<close> calls of the random source. For the empty
  deck the source starts at \<open>i = -1\<close> and the model at \<open>i = 0\<close>: the body runs in neither.
\<close>

fun fisherYates_loop :: "(nat \<Rightarrow> draw) \<Rightarrow> nat \<Rightarrow> nat \<Rightarrow> 'a list \<Rightarrow> 'a list" where
  "fisherYates_loop rnd k 0 shuffledDeck = shuffledDeck"
| "fisherYates_loop rnd k (Suc i) shuffledDeck =
     (let randomIndex = random_below (rnd k) (Suc i + 1)
      in fisherYates_loop rnd (Suc k) i (swap_at shuffledDeck (Suc i) randomIndex))"

definition fisherYatesShuffle :: "(nat \<Rightarrow> draw) \<Rightarrow> Card list \<Rightarrow> Card list" where
  "fisherYatesShuffle rnd deck =
     (let shuffledDeck = fisherYates_loop rnd 0 (length deck - 1) deck
      in map_indexed (\<lambda>card index. card\<lparr>position := int index, isHighlighted := False\<rparr>)
           shuffledDeck)"

text \<open>The recorder: the same loop, which pushes one step before each swap.\<close>

fun fisherYatesSteps_loop ::
  "(nat \<Rightarrow> draw) \<Rightarrow> nat \<Rightarrow> nat \<Rightarrow> Card list \<Rightarrow> ShuffleStep list \<Rightarrow> ShuffleStep list" where
  "fisherYatesSteps_loop rnd k 0 workingDeck steps = steps"
| "fisherYatesSteps_loop rnd k (Suc i) workingDeck steps =
     (let randomIndex = random_below (rnd k) (Suc i + 1);
          step = \<lparr>description = ''Step '' @ string_of_nat (length steps + 1)
                     @ '': Swap card at position '' @ string_of_nat (Suc i)
                     @ '' with card at position '' @ string_of_nat randomIndex,
                  cardIndices = [int (Suc i), int randomIndex],
                  action = Swap,
                  fromPositions = [int (Suc i), int randomIndex],
                  toPositions = [int randomIndex, int (Suc i)]\<rparr>
      in fisherYatesSteps_loop rnd (Suc k) i (swap_at workingDeck (Suc i) randomIndex)
           (steps @ [step]))"

definition fisherYatesShuffleSteps :: "(nat \<Rightarrow> draw) \<Rightarrow> Card list \<Rightarrow> ShuffleStep list" where
  "fisherYatesShuffleSteps rnd deck = fisherYatesSteps_loop rnd 0 (length deck - 1) deck []"

section \<open>Applying a step\<close>

text \<open>
  \<open>applyShuffleStep\<close> writes into a copy of the deck at the indices the step gives, and
  the source checks none of them. An array of the source language takes such a write: at
  an index from its length on (below \<open>2^32 - 1\<close>) it grows, leaving holes; at any other
  number it gets a property and its elements stay as they are. A read outside the array, or
  of a hole, gives \<^verbatim>\<open>undefined\<close>. The indices are taken to be integers.
\<close>

datatype 'a slot = Hole | Undefined | Value 'a

definition js_get :: "'a slot list \<Rightarrow> int \<Rightarrow> 'a slot" where
  "js_get xs i =
     (if 0 \<le> i \<and> i < int (length xs)
      then (case xs ! nat i of Hole \<Rightarrow> Undefined | v \<Rightarrow> v)
      else Undefined)"

definition js_set :: "'a slot list \<Rightarrow> int \<Rightarrow> 'a slot \<Rightarrow> 'a slot list" where
  "js_set xs i v =
     (if 0 \<le> i \<and> i < int (length xs) then xs[nat i := v]
      else if int (length xs) \<le> i \<and> i < 4294967295
      then xs @ replicate (nat i - length xs) Hole @ [v]
      else xs)"

text \<open>
  What \<^verbatim>\<open>newDeck.map((card, index) => ({...card, position: index, isHighlighted: ...}))\<close>
  leaves at an index: nothing at a hole (\<open>Missing\<close>), an object with the two fields
  \<open>position\<close> and \<open>isHighlighted\<close> alone where the element was \<^verbatim>\<open>undefined\<close> (\<open>Bare\<close>), a
  card otherwise.
\<close>

datatype entry = Missing | Bare int bool | Full Card

definition applyShuffleStep :: "Card list \<Rightarrow> ShuffleStep \<Rightarrow> entry list" where
  "applyShuffleStep deck step =
     (let newDeck = map Value deck;
          newDeck =
            (if action step = Swap \<and> length (cardIndices step) = 2
             then (let index1 = cardIndices step ! 0;
                       index2 = cardIndices step ! 1;
                       from2 = js_get newDeck index2;
                       from1 = js_get newDeck index1
                   in js_set (js_set newDeck index1 from2) index2 from1)
             else newDeck)
      in map_indexed
           (\<lambda>s index. case s of
               Hole \<Rightarrow> Missing
             | Undefined \<Rightarrow> Bare (int index) (int index \<in> set (cardIndices step))
             | Value c \<Rightarrow>
                 Full (c\<lparr>position := int index,
                             isHighlighted := int index \<in> set (cardIndices step)\<rparr>))
           newDeck)"

text \<open>The deck an array of entries is, when each of them is a card.\<close>

fun cards_of :: "entry list \<Rightarrow> Card list option" where
  "cards_of [] = Some []"
| "cards_of (Full c # es) = map_option ((#) c) (cards_of es)"
| "cards_of (e # es) = None"

text \<open>
  Replaying a list of steps, as the step-through of the application does:
  \<^verbatim>\<open>for (let i = 0; i <= targetStepIndex; i++) newDeck = applyShuffleStep(newDeck, shuffleSteps[i])\<close>.
  The result is \<open>None\<close> when a step leaves something that is no deck of cards (the source
  would go on with that array); the steps of the four recorders never do.
\<close>

fun replay :: "Card list \<Rightarrow> ShuffleStep list \<Rightarrow> Card list option" where
  "replay deck [] = Some deck"
| "replay deck (s # ss) =
     (case cards_of (applyShuffleStep deck s) of
        None \<Rightarrow> None
      | Some newDeck \<Rightarrow> replay newDeck ss)"

section \<open>Riffle shuffle\<close>

text \<open>
  \<^verbatim>\<open>const midPoint = Math.floor(shuffledDeck.length / 2);
  const splitVariation = Math.floor(Math.random() * 3) - 1;
  const splitPoint = Math.max(1, Math.min(shuffledDeck.length - 1, midPoint + splitVariation));\<close>
  with the first call of the random source.
\<close>

definition riffle_splitPoint :: "(nat \<Rightarrow> draw) \<Rightarrow> nat \<Rightarrow> nat" where
  "riffle_splitPoint rnd n =
     (let midPoint = int (n div 2);
          splitVariation = int (random_below (rnd 0) 3) - 1
      in nat (max 1 (min (int n - 1) (midPoint + splitVariation))))"

text \<open>
  \<^verbatim>\<open>while (leftIndex < leftHalf.length || rightIndex < rightHalf.length) {
    const takeFromLeft = leftIndex < leftHalf.length &&
      (rightIndex >= rightHalf.length || Math.random() < 0.5);
    if (takeFromLeft) { result.push(leftHalf[leftIndex]); leftIndex++; }
    else { result.push(rightHalf[rightIndex]); rightIndex++; }
  }\<close>
  The random source is called only where \<^verbatim>\<open>&&\<close> and \<^verbatim>\<open>||\<close> reach the call: when both halves
  still have a card.
\<close>

function riffle_loop ::
  "(nat \<Rightarrow> draw) \<Rightarrow> nat \<Rightarrow> 'a list \<Rightarrow> 'a list \<Rightarrow> nat \<Rightarrow> nat \<Rightarrow> 'a list \<Rightarrow> 'a list" where
  "riffle_loop rnd k leftHalf rightHalf leftIndex rightIndex result =
     (if leftIndex < length leftHalf \<or> rightIndex < length rightHalf
      then
        if leftIndex < length leftHalf \<and> (rightIndex \<ge> length rightHalf \<or> draw_val (rnd k) < 1 / 2)
        then riffle_loop rnd (if rightIndex \<ge> length rightHalf then k else Suc k)
               leftHalf rightHalf (leftIndex + 1) rightIndex (result @ [leftHalf ! leftIndex])
        else riffle_loop rnd (if leftIndex < length leftHalf then Suc k else k)
               leftHalf rightHalf leftIndex (rightIndex + 1) (result @ [rightHalf ! rightIndex])
      else result)"
  by pat_completeness auto
termination
  by (relation "measure (\<lambda>(rnd, k, leftHalf, rightHalf, leftIndex, rightIndex, result).
        (length leftHalf - leftIndex) + (length rightHalf - rightIndex))") auto

declare riffle_loop.simps [simp del]

definition riffleShuffle :: "(nat \<Rightarrow> draw) \<Rightarrow> Card list \<Rightarrow> Card list" where
  "riffleShuffle rnd deck =
     (let shuffledDeck = deck;
          splitPoint = riffle_splitPoint rnd (length shuffledDeck);
          leftHalf = take splitPoint shuffledDeck;
          rightHalf = drop splitPoint shuffledDeck;
          result = riffle_loop rnd 1 leftHalf rightHalf 0 0 []
      in map_indexed (\<lambda>card index. card\<lparr>position := int index, isHighlighted := False\<rparr>)
           result)"

text \<open>The recorder: one \<open>Split\<close> step over the whole deck, then one \<open>Move\<close> step per card taken.\<close>

function riffleSteps_loop ::
  "(nat \<Rightarrow> draw) \<Rightarrow> nat \<Rightarrow> Card list \<Rightarrow> Card list \<Rightarrow> nat \<Rightarrow> nat \<Rightarrow> nat \<Rightarrow> Card list \<Rightarrow> nat
     \<Rightarrow> ShuffleStep list \<Rightarrow> ShuffleStep list" where
  "riffleSteps_loop rnd k leftHalf rightHalf splitPoint leftIndex rightIndex result stepCount steps =
     (if leftIndex < length leftHalf \<or> rightIndex < length rightHalf
      then
        if leftIndex < length leftHalf \<and> (rightIndex \<ge> length rightHalf \<or> draw_val (rnd k) < 1 / 2)
        then riffleSteps_loop rnd (if rightIndex \<ge> length rightHalf then k else Suc k)
               leftHalf rightHalf splitPoint (leftIndex + 1) rightIndex
               (result @ [leftHalf ! leftIndex]) (stepCount + 1)
               (steps @
                 [\<lparr>description = ''Step '' @ string_of_nat stepCount
                      @ '': Take card from left half (position '' @ string_of_nat leftIndex
                      @ '' in left half)'',
                   cardIndices = [int leftIndex],
                   action = Move,
                   fromPositions = [int leftIndex],
                   toPositions = [int (length (result @ [leftHalf ! leftIndex])) - 1]\<rparr>])
        else riffleSteps_loop rnd (if leftIndex < length leftHalf then Suc k else k)
               leftHalf rightHalf splitPoint leftIndex (rightIndex + 1)
               (result @ [rightHalf ! rightIndex]) (stepCount + 1)
               (steps @
                 [\<lparr>description = ''Step '' @ string_of_nat stepCount
                      @ '': Take card from right half (position '' @ string_of_nat rightIndex
                      @ '' in right half)'',
                   cardIndices = [int splitPoint + int rightIndex],
                   action = Move,
                   fromPositions = [int splitPoint + int rightIndex],
                   toPositions = [int (length (result @ [rightHalf ! rightIndex])) - 1]\<rparr>])
      else steps)"
  by pat_completeness auto
termination
  by (relation "measure (\<lambda>(rnd, k, leftHalf, rightHalf, splitPoint, leftIndex, rightIndex, rest).
        (length leftHalf - leftIndex) + (length rightHalf - rightIndex))") auto

declare riffleSteps_loop.simps [simp del]

definition riffleShuffleSteps :: "(nat \<Rightarrow> draw) \<Rightarrow> Card list \<Rightarrow> ShuffleStep list" where
  "riffleShuffleSteps rnd deck =
     (let workingDeck = deck;
          splitPoint = riffle_splitPoint rnd (length workingDeck);
          leftHalf = take splitPoint workingDeck;
          rightHalf = drop splitPoint workingDeck;
          steps =
            [\<lparr>description = ''Step 1: Split deck at position '' @ string_of_nat splitPoint
                 @ '' ('' @ string_of_nat (length leftHalf) @ '' cards left, ''
                 @ string_of_nat (length rightHalf) @ '' cards right)'',
              cardIndices = array_from (length workingDeck) int,
              action = Split,
              fromPositions = array_from (length workingDeck) int,
              toPositions = array_from (length workingDeck) int\<rparr>]
      in riffleSteps_loop rnd 1 leftHalf rightHalf splitPoint 0 0 [] 2 steps)"

section \<open>Overhand shuffle\<close>

text \<open>
  \<^verbatim>\<open>while (shuffledDeck.length > 0) {
    const groupSize = Math.min(shuffledDeck.length, Math.floor(Math.random() * 7) + 1);
    const group = shuffledDeck.splice(0, groupSize);
    result.unshift(...group);
  }\<close>
\<close>

function overhand_loop :: "(nat \<Rightarrow> draw) \<Rightarrow> nat \<Rightarrow> 'a list \<Rightarrow> 'a list \<Rightarrow> 'a list" where
  "overhand_loop rnd k shuffledDeck result =
     (if length shuffledDeck > 0
      then (let groupSize = min (length shuffledDeck) (random_below (rnd k) 7 + 1);
                group = take groupSize shuffledDeck
            in overhand_loop rnd (Suc k) (drop groupSize shuffledDeck) (group @ result))
      else result)"
  by pat_completeness auto
termination
  by (relation "measure (\<lambda>(rnd, k, shuffledDeck, result). length shuffledDeck)") auto

declare overhand_loop.simps [simp del]

definition overhandShuffle :: "(nat \<Rightarrow> draw) \<Rightarrow> Card list \<Rightarrow> Card list" where
  "overhandShuffle rnd deck =
     (let result = overhand_loop rnd 0 deck []
      in map_indexed (\<lambda>card index. card\<lparr>position := int index, isHighlighted := False\<rparr>)
           result)"

function overhandSteps_loop ::
  "(nat \<Rightarrow> draw) \<Rightarrow> nat \<Rightarrow> Card list \<Rightarrow> Card list \<Rightarrow> nat \<Rightarrow> ShuffleStep list \<Rightarrow> ShuffleStep list"
  where
  "overhandSteps_loop rnd k workingDeck result stepCount steps =
     (if length workingDeck > 0
      then (let groupSize = min (length workingDeck) (random_below (rnd k) 7 + 1);
                groupIndices = array_from groupSize int;
                step = \<lparr>description = ''Step '' @ string_of_nat stepCount @ '': Take ''
                           @ string_of_nat groupSize @ '' card''
                           @ (if groupSize > 1 then ''s'' else '''')
                           @ '' from top and place on bottom'',
                        cardIndices = groupIndices,
                        action = Move,
                        fromPositions = groupIndices,
                        toPositions = array_from groupSize (\<lambda>i. int (length result + i))\<rparr>;
                group = take groupSize workingDeck
            in overhandSteps_loop rnd (Suc k) (drop groupSize workingDeck) (group @ result)
                 (stepCount + 1) (steps @ [step]))
      else steps)"
  by pat_completeness auto
termination
  by (relation "measure (\<lambda>(rnd, k, workingDeck, rest). length workingDeck)") auto

declare overhandSteps_loop.simps [simp del]

definition overhandShuffleSteps :: "(nat \<Rightarrow> draw) \<Rightarrow> Card list \<Rightarrow> ShuffleStep list" where
  "overhandShuffleSteps rnd deck = overhandSteps_loop rnd 0 deck [] 1 []"

section \<open>Hindu shuffle\<close>

text \<open>
  \<^verbatim>\<open>while (shuffledDeck.length > 0) {
    const packetSize = Math.min(shuffledDeck.length, Math.floor(Math.random() * 6) + 1);
    const packet = shuffledDeck.splice(-packetSize, packetSize);
    result.push(...packet);
  }\<close>
  \<^verbatim>\<open>splice(-p, p)\<close> removes the last \<open>p\<close> elements, and returns them in their order.
\<close>

function hindu_loop :: "(nat \<Rightarrow> draw) \<Rightarrow> nat \<Rightarrow> 'a list \<Rightarrow> 'a list \<Rightarrow> 'a list" where
  "hindu_loop rnd k shuffledDeck result =
     (if length shuffledDeck > 0
      then (let packetSize = min (length shuffledDeck) (random_below (rnd k) 6 + 1);
                packet = drop (length shuffledDeck - packetSize) shuffledDeck
            in hindu_loop rnd (Suc k) (take (length shuffledDeck - packetSize) shuffledDeck)
                 (result @ packet))
      else result)"
  by pat_completeness auto
termination
  by (relation "measure (\<lambda>(rnd, k, shuffledDeck, result). length shuffledDeck)") auto

declare hindu_loop.simps [simp del]

definition hinduShuffle :: "(nat \<Rightarrow> draw) \<Rightarrow> Card list \<Rightarrow> Card list" where
  "hinduShuffle rnd deck =
     (let result = hindu_loop rnd 0 deck []
      in map_indexed (\<lambda>card index. card\<lparr>position := int index, isHighlighted := False\<rparr>)
           result)"

function hinduSteps_loop ::
  "(nat \<Rightarrow> draw) \<Rightarrow> nat \<Rightarrow> Card list \<Rightarrow> Card list \<Rightarrow> nat \<Rightarrow> ShuffleStep list \<Rightarrow> ShuffleStep list"
  where
  "hinduSteps_loop rnd k workingDeck result stepCount steps =
     (if length workingDeck > 0
      then (let packetSize = min (length workingDeck) (random_below (rnd k) 6 + 1);
                packetIndices =
                  array_from packetSize (\<lambda>i. int (length workingDeck) - int packetSize + int i);
                step = \<lparr>description = ''Step '' @ string_of_nat stepCount @ '': Pull ''
                           @ string_of_nat packetSize @ '' card''
                           @ (if packetSize > 1 then ''s'' else '''')
                           @ '' from bottom and drop on top'',
                        cardIndices = packetIndices,
                        action = Move,
                        fromPositions = packetIndices,
                        toPositions = array_from packetSize (\<lambda>i. int (length result + i))\<rparr>;
                packet = drop (length workingDeck - packetSize) workingDeck
            in hinduSteps_loop rnd (Suc k) (take (length workingDeck - packetSize) workingDeck)
                 (result @ packet) (stepCount + 1) (steps @ [step]))
      else steps)"
  by pat_completeness auto
termination
  by (relation "measure (\<lambda>(rnd, k, workingDeck, rest). length workingDeck)") auto

declare hinduSteps_loop.simps [simp del]

definition hinduShuffleSteps :: "(nat \<Rightarrow> draw) \<Rightarrow> Card list \<Rightarrow> ShuffleStep list" where
  "hinduShuffleSteps rnd deck = hinduSteps_loop rnd 0 deck [] 1 []"

section \<open>The table of algorithms\<close>

text \<open>
  \<^verbatim>\<open>interface ShuffleAlgorithm { name; description; timeComplexity; steps; execute }\<close>. The
  field \<^verbatim>\<open>description\<close> is called \<open>about\<close> and \<^verbatim>\<open>steps\<close> is called \<open>recorded\<close>, since a
  record of this theory has the first name already and every recorder uses the second.
\<close>

record ShuffleAlgorithm =
  name :: string
  about :: string
  timeComplexity :: string
  recorded :: "ShuffleStep list"
  execute :: "(nat \<Rightarrow> draw) \<Rightarrow> Card list \<Rightarrow> ShuffleStep list"

definition SHUFFLE_ALGORITHMS :: "ShuffleAlgorithm list" where
  "SHUFFLE_ALGORITHMS =
     [\<lparr>name = ''Fisher-Yates'',
       about = ''Modern unbiased shuffle algorithm that produces a uniformly random permutation. Each card has an equal probability of ending up in any position. This is the gold standard for computer-based shuffling.'',
       timeComplexity = ''O(n)'',
       recorded = [],
       execute = fisherYatesShuffleSteps\<rparr>,
      \<lparr>name = ''Riffle Shuffle'',
       about = ''Simulates the physical riffle shuffle used in card games. The deck is split roughly in half and the cards are interleaved with slight randomization. Commonly used in casinos and card games.'',
       timeComplexity = ''O(n)'',
       recorded = [],
       execute = riffleShuffleSteps\<rparr>,
      \<lparr>name = ''Overhand Shuffle'',
       about = ''Common casual shuffling method where small groups of cards are taken from the top of the deck and placed on the bottom. While intuitive, it requires many iterations to achieve good randomization and has poor mixing properties.'',
       timeComplexity = ''O(n'' @ [CHR 0xC2, CHR 0xB2] @ '') for full randomization'',
       recorded = [],
       execute = overhandShuffleSteps\<rparr>,
      \<lparr>name = ''Hindu Shuffle'',
       about = ''Traditional shuffle method from South Asia where small packets of cards are pulled from the bottom of the deck and dropped on top. Similar to overhand shuffle but with opposite direction of movement.'',
       timeComplexity = ''O(n'' @ [CHR 0xC2, CHR 0xB2] @ '') for full randomization'',
       recorded = [],
       execute = hinduShuffleSteps\<rparr>]"

text \<open>\<^verbatim>\<open>SHUFFLE_ALGORITHMS.find(algo => algo.name === name)\<close>; \<open>None\<close> is \<^verbatim>\<open>undefined\<close>.\<close>

definition getAlgorithmByName :: "string \<Rightarrow> ShuffleAlgorithm option" where
  "getAlgorithmByName n = find (\<lambda>algo. name algo = n) SHUFFLE_ALGORITHMS"

section \<open>Randomness scores and statistics\<close>

text \<open>
  The source computes with double-precision numbers. The score of
  \<open>calculateRandomnessMetrics\<close> is the result of divisions and of products with \<open>0.6\<close> and
  \<open>0.4\<close>, which the doubles round; so this function takes the arithmetic it computes in as a
  parameter \<open>ar\<close>: the number a literal or a count stands for, the sum, the product and the
  quotient of two numbers, \<^verbatim>\<open>Math.min\<close> and \<^verbatim>\<open>Math.round\<close>. Two arithmetics are defined:
  \<open>exact\<close>, with the operations of the real numbers, in which the formulas of the
  specification have their mathematical value, and \<open>double\<close>, with every operation rounded as
  the doubles round it, in which the source runs. The other functions of the statistics are
  written with the rounded operations \<open>d_add\<close>, \<open>d_sub\<close>, \<open>d_mul\<close>, \<open>d_div\<close> directly; the
  numbers they are given (execution times, step counts, stored averages) are doubles.
\<close>

record 'n arith =
  n_lit :: "real \<Rightarrow> 'n"
  n_add :: "'n \<Rightarrow> 'n \<Rightarrow> 'n"
  n_mul :: "'n \<Rightarrow> 'n \<Rightarrow> 'n"
  n_div :: "'n \<Rightarrow> 'n \<Rightarrow> 'n"
  n_min :: "'n \<Rightarrow> 'n \<Rightarrow> 'n"
  n_round :: "'n \<Rightarrow> 'n"

text \<open>
  The exact arithmetic: a number is a real number or \<open>NaN\<close>, the one value of the source
  that is no number and that the functions below can produce from decks and numbers, by
  \<^verbatim>\<open>0 / 0\<close> (none of them divides another number by zero). An operation on \<open>NaN\<close> gives \<open>NaN\<close>.
\<close>

datatype js_number = NaN | Num real

text \<open>\<^verbatim>\<open>Math.round\<close>: the nearest integer, a half going up.\<close>

definition Math_round :: "real \<Rightarrow> int" where
  "Math_round x = \<lfloor>x + 1 / 2\<rfloor>"

fun lift2 :: "(real \<Rightarrow> real \<Rightarrow> real) \<Rightarrow> js_number \<Rightarrow> js_number \<Rightarrow> js_number" where
  "lift2 f (Num a) (Num b) = Num (f a b)"
| "lift2 f x y = NaN"

fun exact_div :: "js_number \<Rightarrow> js_number \<Rightarrow> js_number" where
  "exact_div (Num a) (Num b) = (if b = 0 then NaN else Num (a / b))"
| "exact_div x y = NaN"

fun exact_round :: "js_number \<Rightarrow> js_number" where
  "exact_round (Num a) = Num (of_int (Math_round a))"
| "exact_round NaN = NaN"

definition exact :: "js_number arith" where
  "exact = \<lparr>n_lit = Num, n_add = lift2 (+), n_mul = lift2 (*), n_div = exact_div,
             n_min = lift2 min, n_round = exact_round\<rparr>"

text \<open>
  The arithmetic of the doubles (IEEE 754 binary64, rounding to nearest, ties to the even
  mantissa). A positive real number \<open>a\<close> with \<open>2^e \<le> a < 2^(e + 1)\<close> lies between two
  neighbouring multiples of \<open>2^(e - 52)\<close>, and the double nearest to it is the nearer of the
  two, the one with the even multiplier when \<open>a\<close> is half-way. \<open>binary_exponent a\<close> is this
  \<open>e\<close>, found by halving (\<open>exp_up\<close>, for \<open>a \<ge> 1\<close>) or by doubling (\<open>exp_down\<close>, for \<open>a < 1\<close>);
  \<open>fl x\<close> is the double nearest to \<open>x\<close>. This is the rounding of the source for the numbers
  of the normal range of the doubles (of magnitude between \<open>2^-1022\<close> and \<open>2^1024\<close>),
  which the counts, ratios, averages and scores of these functions never leave.
\<close>

function exp_up :: "real \<Rightarrow> int" where
  "exp_up x = (if 2 \<le> x then exp_up (x / 2) + 1 else 0)"
  by pat_completeness auto
termination
proof (relation "measure (\<lambda>x. nat \<lfloor>x\<rfloor>)")
  fix x :: real
  assume "2 \<le> x"
  then have "x / 2 \<le> x - 1"
    by simp
  then have "\<lfloor>x / 2\<rfloor> \<le> \<lfloor>x - 1\<rfloor>"
    by (rule floor_mono)
  moreover have "2 \<le> \<lfloor>x\<rfloor>"
    using \<open>2 \<le> x\<close> by (simp add: le_floor_iff)
  ultimately show "(x / 2, x) \<in> measure (\<lambda>x. nat \<lfloor>x\<rfloor>)"
    by simp
qed simp

declare exp_up.simps [simp del]

function exp_down :: "real \<Rightarrow> int" where
  "exp_down x = (if 0 < x \<and> x < 1 then exp_down (2 * x) - 1 else 0)"
  by pat_completeness auto
termination
proof (relation "measure (\<lambda>x. nat \<lceil>1 / x\<rceil>)")
  fix x :: real
  assume x: "0 < x \<and> x < 1"
  then have "1 < 1 / x"
    by simp
  then have c: "2 \<le> \<lceil>1 / x\<rceil>"
    by (simp add: le_ceiling_iff)
  have "1 / (2 * x) = (1 / x) / 2"
    by simp
  also have "\<dots> \<le> of_int \<lceil>1 / x\<rceil> / 2"
    by (intro divide_right_mono) simp_all
  also have "\<dots> \<le> of_int (\<lceil>1 / x\<rceil> - 1)"
    using c by simp
  finally have "\<lceil>1 / (2 * x)\<rceil> \<le> \<lceil>1 / x\<rceil> - 1"
    by (simp only: ceiling_le_iff)
  with c x show "(2 * x, x) \<in> measure (\<lambda>x. nat \<lceil>1 / x\<rceil>)"
    by simp
qed simp

declare exp_down.simps [simp del]

definition binary_exponent :: "real \<Rightarrow> int" where
  "binary_exponent x = (if 1 \<le> x then exp_up x else exp_down x)"

text \<open>The nearest integer, a half going to the even one.\<close>

definition round_even :: "real \<Rightarrow> int" where
  "round_even q =
     (let f = \<lfloor>q\<rfloor>; r = q - of_int f
      in if r < 1 / 2 then f else if 1 / 2 < r then f + 1 else if even f then f else f + 1)"

definition pow2 :: "int \<Rightarrow> real" where
  "pow2 n = (if 0 \<le> n then 2 ^ nat n else 1 / 2 ^ nat (- n))"

definition fl_at :: "real \<Rightarrow> int \<Rightarrow> real" where
  "fl_at a e = of_int (round_even (a / pow2 (e - 52))) * pow2 (e - 52)"

definition fl :: "real \<Rightarrow> real" where
  "fl x = (if x = 0 then 0 else sgn x * fl_at \<bar>x\<bar> (binary_exponent \<bar>x\<bar>))"

text \<open>
  The operations of the source on two doubles: the exact result, rounded. \<^verbatim>\<open>Math.log2\<close> is
  taken as the binary logarithm rounded to the nearest double (the language leaves its last
  bit to the implementation; the theorems below evaluate it at powers of two only, where
  it is exact).
\<close>

definition d_add :: "real \<Rightarrow> real \<Rightarrow> real" where
  "d_add a b = fl (a + b)"

definition d_sub :: "real \<Rightarrow> real \<Rightarrow> real" where
  "d_sub a b = fl (a - b)"

definition d_mul :: "real \<Rightarrow> real \<Rightarrow> real" where
  "d_mul a b = fl (a * b)"

definition d_div :: "real \<Rightarrow> real \<Rightarrow> real" where
  "d_div a b = fl (a / b)"

definition Math_log2 :: "real \<Rightarrow> real" where
  "Math_log2 x = fl (log 2 x)"

fun double_div :: "js_number \<Rightarrow> js_number \<Rightarrow> js_number" where
  "double_div (Num a) (Num b) = (if b = 0 then NaN else Num (d_div a b))"
| "double_div x y = NaN"

definition double :: "js_number arith" where
  "double = \<lparr>n_lit = (\<lambda>r. Num (fl r)), n_add = lift2 d_add, n_mul = lift2 d_mul,
              n_div = double_div, n_min = lift2 min, n_round = exact_round\<rparr>"

text \<open>\<^verbatim>\<open>xs.findIndex(p)\<close>: the first index where \<open>p\<close> holds, \<open>-1\<close> when there is none.\<close>

fun findIndex_from :: "('a \<Rightarrow> bool) \<Rightarrow> nat \<Rightarrow> 'a list \<Rightarrow> int" where
  "findIndex_from p i [] = - 1"
| "findIndex_from p i (x # xs) = (if p x then int i else findIndex_from p (Suc i) xs)"

definition findIndex :: "('a \<Rightarrow> bool) \<Rightarrow> 'a list \<Rightarrow> int" where
  "findIndex p xs = findIndex_from p 0 xs"

text \<open>
  \<^verbatim>\<open>for (let i = 0; i < originalDeck.length; i++) {
    const originalCard = originalDeck[i];
    const shuffledPosition = shuffledDeck.findIndex(card => card.id === originalCard.id);
    if (shuffledPosition !== i) {
      displacedCards++;
      totalDisplacement += Math.abs(shuffledPosition - i);
    }
  }\<close>
  The two counters hold integers far below \<open>2^53\<close>, which the doubles add exactly.
\<close>

definition displacement_loop :: "Card list \<Rightarrow> Card list \<Rightarrow> nat \<times> int" where
  "displacement_loop originalDeck shuffledDeck =
     fold (\<lambda>i (displacedCards, totalDisplacement).
             let originalCard = originalDeck ! i;
                 shuffledPosition =
                   findIndex (\<lambda>c. card_id c = card_id originalCard) shuffledDeck
             in if shuffledPosition \<noteq> int i
                then (displacedCards + 1, totalDisplacement + \<bar>shuffledPosition - int i\<bar>)
                else (displacedCards, totalDisplacement))
       [0..<length originalDeck] (0, 0)"

text \<open>
  \<^verbatim>\<open>const displacementRatio = displacedCards / originalDeck.length;
  const averageDisplacement = totalDisplacement / originalDeck.length;
  const normalizedDisplacement = Math.min(averageDisplacement / (originalDeck.length / 2), 1);
  return Math.round((displacementRatio * 0.6 + normalizedDisplacement * 0.4) * 100);\<close>
\<close>

definition calculateRandomnessMetrics :: "'n arith \<Rightarrow> Card list \<Rightarrow> Card list \<Rightarrow> 'n" where
  "calculateRandomnessMetrics ar originalDeck shuffledDeck =
     (if length originalDeck \<noteq> length shuffledDeck then n_lit ar 0
      else
        let (displacedCards, totalDisplacement) = displacement_loop originalDeck shuffledDeck;
            displacementRatio =
              n_div ar (n_lit ar (real displacedCards)) (n_lit ar (real (length originalDeck)));
            averageDisplacement =
              n_div ar (n_lit ar (real_of_int totalDisplacement))
                (n_lit ar (real (length originalDeck)));
            normalizedDisplacement =
              n_min ar
                (n_div ar averageDisplacement
                  (n_div ar (n_lit ar (real (length originalDeck))) (n_lit ar 2)))
                (n_lit ar 1)
        in n_round ar
             (n_mul ar
               (n_add ar (n_mul ar displacementRatio (n_lit ar (6 / 10)))
                 (n_mul ar normalizedDisplacement (n_lit ar (4 / 10))))
               (n_lit ar 100)))"

text \<open>
  \<open>calculateEntropy\<close>. \<^verbatim>\<open>Math.max(...differences)\<close> of no number at all is \<^verbatim>\<open>-Infinity\<close>, which
  is not \<open>0\<close>, and \<^verbatim>\<open>new Array(-Infinity + 1)\<close> throws a \<^verbatim>\<open>RangeError\<close>. The differences are
  natural numbers, and the maximum of one or more of them is \<open>fold max differences 0\<close>.
\<close>

datatype js_error = RangeError

text \<open>\<^verbatim>\<open>shuffledDeck.forEach((card, index) => { positions.set(card.id, index); })\<close>\<close>

definition position_map :: "Card list \<Rightarrow> (string \<rightharpoonup> nat)" where
  "position_map shuffledDeck =
     fold (\<lambda>(c, index) positions. positions(card_id c \<mapsto> index))
       (zip shuffledDeck [0..<length shuffledDeck]) Map.empty"

text \<open>
  \<^verbatim>\<open>const newPosition = positions.get(card.id) || 0;
  differences.push(Math.abs(newPosition - originalIndex));\<close>
\<close>

definition position_differences :: "Card list \<Rightarrow> Card list \<Rightarrow> nat list" where
  "position_differences originalDeck shuffledDeck =
     (let positions = position_map shuffledDeck
      in map_indexed
           (\<lambda>c originalIndex.
              let newPosition = (case positions (card_id c) of None \<Rightarrow> 0 | Some p \<Rightarrow> p)
              in nat \<bar>int newPosition - int originalIndex\<bar>)
           originalDeck)"

text \<open>\<^verbatim>\<open>differences.forEach(diff => buckets[diff]++)\<close>\<close>

definition fill_buckets :: "nat list \<Rightarrow> nat list \<Rightarrow> nat list" where
  "fill_buckets differences buckets =
     fold (\<lambda>diff buckets. buckets[diff := buckets ! diff + 1]) differences buckets"

text \<open>
  \<^verbatim>\<open>buckets.forEach(count => {
    if (count > 0) {
      const probability = count / total;
      entropy -= probability * Math.log2(probability);
    }
  })\<close>
\<close>

definition entropy_of :: "nat list \<Rightarrow> nat \<Rightarrow> real" where
  "entropy_of buckets total' =
     fold (\<lambda>count entropy.
             if count > 0
             then (let probability = d_div (real count) (real total')
                   in d_sub entropy (d_mul probability (Math_log2 probability)))
             else entropy)
       buckets 0"

definition calculateEntropy :: "Card list \<Rightarrow> Card list \<Rightarrow> js_error + real" where
  "calculateEntropy originalDeck shuffledDeck =
     (let differences = position_differences originalDeck shuffledDeck
      in if differences = [] then Inl RangeError
         else
           let maxDifference = fold max differences 0
           in if maxDifference = 0 then Inr 0
              else
                let buckets = fill_buckets differences (replicate (maxDifference + 1) 0);
                    total' = length differences;
                    entropy = entropy_of buckets total';
                    maxEntropy = Math_log2 (real (length buckets))
                in Inr (if maxEntropy > 0 then d_mul (d_div entropy maxEntropy) 100 else 0))"

record ShuffleStatistics =
  algorithmName :: string
  shuffleCount :: nat
  averageSteps :: real
  randomnessScore :: js_number
  executionTimes :: "real list"

text \<open>
  The randomness score of the statistics is the one number of them that can be \<open>NaN\<close> (the
  score of two empty decks). The counts are integers, which the doubles hold exactly.
\<close>

definition updateAlgorithmStatistics ::
  "ShuffleStatistics \<Rightarrow> Card list \<Rightarrow> Card list \<Rightarrow> real \<Rightarrow> real \<Rightarrow> ShuffleStatistics" where
  "updateAlgorithmStatistics currentStats originalDeck shuffledDeck executionTime stepCount =
     (let randomnessScore' = calculateRandomnessMetrics double originalDeck shuffledDeck;
          newShuffleCount = shuffleCount currentStats + 1;
          newExecutionTimes = executionTimes currentStats @ [executionTime];
          totalSteps =
            d_add (d_mul (averageSteps currentStats) (real (shuffleCount currentStats)))
              stepCount;
          newAverageSteps = of_int (Math_round (d_div totalSteps (real newShuffleCount)))
      in currentStats
           \<lparr>shuffleCount := newShuffleCount,
            averageSteps := newAverageSteps,
            randomnessScore :=
              n_round double
                (n_div double
                  (n_add double
                    (n_mul double (randomnessScore currentStats)
                      (Num (real (shuffleCount currentStats))))
                    randomnessScore')
                  (Num (real newShuffleCount))),
            executionTimes := newExecutionTimes\<rparr>)"

definition initializeAlgorithmStatistics :: "string \<Rightarrow> ShuffleStatistics" where
  "initializeAlgorithmStatistics algorithmName' =
     \<lparr>algorithmName = algorithmName',
      shuffleCount = 0,
      averageSteps = 0,
      randomnessScore = Num 0,
      executionTimes = []\<rparr>"

definition getAverageExecutionTime :: "ShuffleStatistics \<Rightarrow> real" where
  "getAverageExecutionTime stats =
     (if length (executionTimes stats) = 0 then 0
      else
        let sum' = fold (\<lambda>time acc. d_add acc time) (executionTimes stats) 0
        in of_int (Math_round (d_div sum' (real (length (executionTimes stats))))))"

text \<open>
  The three comparisons \<open>compareAlgorithms\<close> returns, each with the two names, the two values
  compared and the winner. A comparison with \<open>NaN\<close> is false.
\<close>

record 'v Comparison =
  algorithm1 :: "string \<times> 'v"
  algorithm2 :: "string \<times> 'v"
  winner :: string

record AlgorithmComparison =
  randomnessComparison :: "js_number Comparison"
  speedComparison :: "real Comparison"
  stepComparison :: "real Comparison"

fun js_greater :: "js_number \<Rightarrow> js_number \<Rightarrow> bool" where
  "js_greater (Num a) (Num b) = (a > b)"
| "js_greater a b = False"

definition compareAlgorithms :: "ShuffleStatistics \<Rightarrow> ShuffleStatistics \<Rightarrow> AlgorithmComparison" where
  "compareAlgorithms stats1 stats2 =
     \<lparr>randomnessComparison =
        \<lparr>algorithm1 = (algorithmName stats1, randomnessScore stats1),
         algorithm2 = (algorithmName stats2, randomnessScore stats2),
         winner = (if js_greater (randomnessScore stats1) (randomnessScore stats2)
                   then algorithmName stats1 else algorithmName stats2)\<rparr>,
      speedComparison =
        \<lparr>algorithm1 = (algorithmName stats1, getAverageExecutionTime stats1),
         algorithm2 = (algorithmName stats2, getAverageExecutionTime stats2),
         winner = (if getAverageExecutionTime stats1 < getAverageExecutionTime stats2
                   then algorithmName stats1 else algorithmName stats2)\<rparr>,
      stepComparison =
        \<lparr>algorithm1 = (algorithmName stats1, averageSteps stats1),
         algorithm2 = (algorithmName stats2, averageSteps stats2),
         winner = (if averageSteps stats1 < averageSteps stats2
                   then algorithmName stats1 else algorithmName stats2)\<rparr>\<rparr>"

section \<open>Auxiliary definitions of the proofs\<close>

text \<open>
  The deck \<open>applyShuffleStep\<close> leaves when every index of the step is inside the deck (used in
  the proofs only; the function of the source is \<open>applyShuffleStep\<close> above).
\<close>

definition stepped :: "Card list \<Rightarrow> ShuffleStep \<Rightarrow> Card list" where
  "stepped deck step =
     map_indexed
       (\<lambda>c index. c\<lparr>position := int index, isHighlighted := int index \<in> set (cardIndices step)\<rparr>)
       (if action step = Swap \<and> length (cardIndices step) = 2
        then swap_at deck (nat (cardIndices step ! 0)) (nat (cardIndices step ! 1))
        else deck)"

text \<open>
  The Fisher-Yates loop seen through the indices it draws. The trace of a run of the loop from
  the index \<open>i\<close> on is the list of the indices \<open>randomIndex\<close> drawn at \<open>i, i - 1, .., 1\<close>;
  \<open>apply_trace\<close> makes the swaps of a trace, with no random source; a trace is valid for the
  start \<open>i\<close> when it has one index for each of \<open>i, i - 1, .., 1\<close>, each of them at most the
  loop index it is drawn at.
\<close>

fun fisherYates_trace :: "(nat \<Rightarrow> draw) \<Rightarrow> nat \<Rightarrow> nat \<Rightarrow> nat list" where
  "fisherYates_trace rnd k 0 = []"
| "fisherYates_trace rnd k (Suc i) =
     random_below (rnd k) (Suc i + 1) # fisherYates_trace rnd (Suc k) i"

fun apply_trace :: "nat list \<Rightarrow> nat \<Rightarrow> 'a list \<Rightarrow> 'a list" where
  "apply_trace [] i xs = xs"
| "apply_trace (j # js) i xs = apply_trace js (i - 1) (swap_at xs i j)"

fun valid_trace :: "nat \<Rightarrow> nat list \<Rightarrow> bool" where
  "valid_trace 0 js = (js = [])"
| "valid_trace (Suc i) [] = False"
| "valid_trace (Suc i) (j # js) = (j \<le> Suc i \<and> valid_trace i js)"

text \<open>
  The displacement score in the words of the specification: for each item, \<open>d\<close> is the
  distance between its original index and its new index, the index at which the shuffled
  sequence holds its id (the first such index, should an id occur twice);
  \<open>displacedFraction = count(d \<noteq> 0) / N\<close>,
  \<open>normalizedMeanDisplacement = min(mean(d) / (N / 2), 1)\<close> and the score is
  \<open>round(100 \<times> (0.6 \<times> displacedFraction + 0.4 \<times> normalizedMeanDisplacement))\<close>, in the
  arithmetic \<open>ar\<close>.
\<close>

definition new_index :: "Card list \<Rightarrow> Card \<Rightarrow> nat" where
  "new_index shuffledDeck c = length (takeWhile (\<lambda>s. card_id s \<noteq> card_id c) shuffledDeck)"

definition displacements :: "Card list \<Rightarrow> Card list \<Rightarrow> nat list" where
  "displacements originalDeck shuffledDeck =
     map_indexed (\<lambda>c originalIndex. nat \<bar>int (new_index shuffledDeck c) - int originalIndex\<bar>)
       originalDeck"

definition displacedFraction :: "'n arith \<Rightarrow> Card list \<Rightarrow> Card list \<Rightarrow> 'n" where
  "displacedFraction ar originalDeck shuffledDeck =
     n_div ar
       (n_lit ar (real (length (filter (\<lambda>d. d \<noteq> 0) (displacements originalDeck shuffledDeck)))))
       (n_lit ar (real (length originalDeck)))"

definition normalizedMeanDisplacement :: "'n arith \<Rightarrow> Card list \<Rightarrow> Card list \<Rightarrow> 'n" where
  "normalizedMeanDisplacement ar originalDeck shuffledDeck =
     n_min ar
       (n_div ar
         (n_div ar (n_lit ar (real (sum_list (displacements originalDeck shuffledDeck))))
           (n_lit ar (real (length originalDeck))))
         (n_div ar (n_lit ar (real (length originalDeck))) (n_lit ar 2)))
       (n_lit ar 1)"

definition displacement_score :: "'n arith \<Rightarrow> Card list \<Rightarrow> Card list \<Rightarrow> 'n" where
  "displacement_score ar originalDeck shuffledDeck =
     n_round ar
       (n_mul ar (n_lit ar 100)
         (n_add ar
           (n_mul ar (n_lit ar (6 / 10)) (displacedFraction ar originalDeck shuffledDeck))
           (n_mul ar (n_lit ar (4 / 10))
             (normalizedMeanDisplacement ar originalDeck shuffledDeck))))"

section \<open>Evaluating the arithmetic of the doubles\<close>

text \<open>
  The equations that compute \<open>fl\<close> and the rounded operations at concrete numbers. They are
  used on closed terms only.
\<close>

lemmas fl_eval = fl_def fl_at_def pow2_def binary_exponent_def round_even_def exp_up.simps
  exp_down.simps Let_def

lemmas double_eval = d_add_def d_sub_def d_mul_def d_div_def fl_eval

lemma fl_nonzero:
  "fl 2 \<noteq> 0" "fl 3 \<noteq> 0" "fl 8 \<noteq> 0"
  "d_div (fl 2) (fl 2) \<noteq> 0" "d_div (fl 3) (fl 2) \<noteq> 0" "d_div (fl 8) (fl 2) \<noteq> 0"
  by (simp_all add: double_eval)


section \<open>Basic facts\<close>

lemma random_below_less: "0 < n \<Longrightarrow> random_below d n < n"
proof -
  assume n: "0 < n"
  have v: "0 \<le> draw_val d" "draw_val d < 1"
    using draw_val [of d] by auto
  have "draw_val d * real n < real n"
    using v n by simp
  then have "\<lfloor>draw_val d * real n\<rfloor> < int n"
    by (simp add: floor_less_iff)
  moreover have "0 \<le> \<lfloor>draw_val d * real n\<rfloor>"
    using v by simp
  ultimately show ?thesis
    unfolding random_below_def by linarith
qed

lemma length_map_indexed [simp]: "length (map_indexed f xs) = length xs"
  by (simp add: map_indexed_def)

lemma nth_map_indexed [simp]: "i < length xs \<Longrightarrow> map_indexed f xs ! i = f (xs ! i) i"
  by (simp add: map_indexed_def)

lemma length_swap_at [simp]: "length (swap_at xs i j) = length xs"
  by (simp add: swap_at_def)

lemma mset_swap_at: "i < length xs \<Longrightarrow> j < length xs \<Longrightarrow> mset (swap_at xs i j) = mset xs"
  by (simp add: swap_at_def mset_swap)


section \<open>Applying a step inside the deck\<close>

lemma map_indexed_Nil [simp]: "map_indexed f [] = []"
  by (simp add: map_indexed_def)

lemma map_indexed_map: "map_indexed f (map g xs) = map_indexed (\<lambda>x i. f (g x) i) xs"
  by (rule nth_equalityI) simp_all

lemma map_map_indexed: "map g (map_indexed f xs) = map_indexed (\<lambda>x i. g (f x i)) xs"
  by (rule nth_equalityI) simp_all

lemma js_swap_in_range:
  assumes "i1 < length xs" "i2 < length xs"
  shows "js_set (js_set (map Value xs) (int i1) (js_get (map Value xs) (int i2))) (int i2)
           (js_get (map Value xs) (int i1)) = map Value (swap_at xs i1 i2)"
  using assms by (simp add: js_get_def js_set_def swap_at_def map_update)

lemma applyShuffleStep_stepped:
  assumes "\<forall>i \<in> set (cardIndices step). 0 \<le> i \<and> i < int (length deck)"
  shows "applyShuffleStep deck step = map Full (stepped deck step)"
proof (cases "action step = Swap \<and> length (cardIndices step) = 2")
  case True
  then obtain a b where ab: "cardIndices step = [a, b]"
    by (cases "cardIndices step"; cases "tl (cardIndices step)") auto
  with assms have r: "0 \<le> a" "a < int (length deck)" "0 \<le> b" "b < int (length deck)"
    by auto
  have "js_set (js_set (map Value deck) (int (nat a)) (js_get (map Value deck) (int (nat b))))
          (int (nat b)) (js_get (map Value deck) (int (nat a)))
        = map Value (swap_at deck (nat a) (nat b))"
    using r by (intro js_swap_in_range) auto
  with r have "js_set (js_set (map Value deck) a (js_get (map Value deck) b)) b
          (js_get (map Value deck) a) = map Value (swap_at deck (nat a) (nat b))"
    by simp
  with True ab show ?thesis
    by (simp add: applyShuffleStep_def stepped_def Let_def map_indexed_map map_map_indexed)
next
  case False
  then show ?thesis
    by (auto simp add: applyShuffleStep_def stepped_def Let_def map_indexed_map map_map_indexed)
qed

lemma card_order_map_indexed:
  "card_order (map_indexed (\<lambda>c index. c\<lparr>position := p index, isHighlighted := h index\<rparr>) xs)
     = card_order xs"
  by (rule nth_equalityI) (simp_all add: card_order_def)

lemma nth_swap_at:
  assumes "i < length xs" "a < length xs" "b < length xs"
  shows "swap_at xs a b ! i = xs ! (if i = a then b else if i = b then a else i)"
  using assms by (auto simp add: swap_at_def nth_list_update)

lemma nth_card_order: "i < length xs \<Longrightarrow> card_order xs ! i = (card_id (xs ! i), suit (xs ! i), rank (xs ! i))"
  by (simp add: card_order_def)

lemma length_card_order [simp]: "length (card_order xs) = length xs"
  by (simp add: card_order_def)

text \<open>
  Claim C9. For every deck and every step whose indices are all inside the deck,
  \<open>applyShuffleStep\<close> returns a deck of cards of the same length, in which the card at index
  \<open>i\<close> is highlighted exactly when \<open>i\<close> is one of the step's \<open>cardIndices\<close> and has the position
  \<open>i\<close>; when the step is a swap with exactly two indices the cards at these two indices have
  changed places and every other card is where it was, and for any other step the order of
  the cards is that of the deck given.
\<close>

theorem applyShuffleStep_in_range:
  assumes "\<forall>i \<in> set (cardIndices step). 0 \<le> i \<and> i < int (length deck)"
  shows "\<exists>newDeck. applyShuffleStep deck step = map Full newDeck
     \<and> length newDeck = length deck
     \<and> (\<forall>i < length deck.
           isHighlighted (newDeck ! i) = (int i \<in> set (cardIndices step))
           \<and> position (newDeck ! i) = int i)
     \<and> (if action step = Swap \<and> length (cardIndices step) = 2
         then \<forall>i < length deck.
                card_order newDeck ! i =
                card_order deck !
                  (if i = nat (cardIndices step ! 0) then nat (cardIndices step ! 1)
                   else if i = nat (cardIndices step ! 1) then nat (cardIndices step ! 0)
                   else i)
         else card_order newDeck = card_order deck)"
proof (intro exI conjI)
  show "applyShuffleStep deck step = map Full (stepped deck step)"
    using assms by (rule applyShuffleStep_stepped)
  show "length (stepped deck step) = length deck"
    by (simp add: stepped_def)
  show "\<forall>i < length deck.
           isHighlighted (stepped deck step ! i) = (int i \<in> set (cardIndices step))
           \<and> position (stepped deck step ! i) = int i"
    by (simp add: stepped_def)
  show "if action step = Swap \<and> length (cardIndices step) = 2
         then \<forall>i < length deck.
                card_order (stepped deck step) ! i =
                card_order deck !
                  (if i = nat (cardIndices step ! 0) then nat (cardIndices step ! 1)
                   else if i = nat (cardIndices step ! 1) then nat (cardIndices step ! 0)
                   else i)
         else card_order (stepped deck step) = card_order deck"
  proof (cases "action step = Swap \<and> length (cardIndices step) = 2")
    case True
    then obtain a b where ab: "cardIndices step = [a, b]"
      by (cases "cardIndices step"; cases "tl (cardIndices step)") auto
    with assms have r: "nat a < length deck" "nat b < length deck"
      by auto
    have "card_order (stepped deck step) ! i =
          card_order deck ! (if i = nat a then nat b else if i = nat b then nat a else i)"
      if "i < length deck" for i
    proof -
      have "card_order (stepped deck step) = card_order (swap_at deck (nat a) (nat b))"
        using True ab by (simp add: stepped_def card_order_map_indexed)
      also have "\<dots> ! i = card_order deck
          ! (if i = nat a then nat b else if i = nat b then nat a else i)"
        using that r by (simp add: nth_card_order nth_swap_at)
      finally show ?thesis .
    qed
    with True ab show ?thesis
      by simp
  next
    case False
    then show ?thesis
      by (auto simp add: stepped_def card_order_map_indexed)
  qed
qed

theorem applyShuffleStep_in_range_witness:
  "\<exists>newDeck.
     applyShuffleStep
       [\<lparr>card_id = ''hearts-A'', suit = hearts, rank = A, position = 0, isHighlighted = False\<rparr>,
        \<lparr>card_id = ''hearts-2'', suit = hearts, rank = R2, position = 1, isHighlighted = False\<rparr>,
        \<lparr>card_id = ''hearts-3'', suit = hearts, rank = R3, position = 2, isHighlighted = True\<rparr>]
       \<lparr>description = ''Step 1: Swap card at position 2 with card at position 0'',
        cardIndices = [2, 0], action = Swap, fromPositions = [2, 0], toPositions = [0, 2]\<rparr>
       = map Full newDeck
     \<and> newDeck =
       [\<lparr>card_id = ''hearts-3'', suit = hearts, rank = R3, position = 0, isHighlighted = True\<rparr>,
        \<lparr>card_id = ''hearts-2'', suit = hearts, rank = R2, position = 1, isHighlighted = False\<rparr>,
        \<lparr>card_id = ''hearts-A'', suit = hearts, rank = A, position = 2, isHighlighted = True\<rparr>]"
  using applyShuffleStep_in_range
    [of "\<lparr>description = ''Step 1: Swap card at position 2 with card at position 0'',
        cardIndices = [2, 0], action = Swap, fromPositions = [2, 0], toPositions = [0, 2]\<rparr>"
       "[\<lparr>card_id = ''hearts-A'', suit = hearts, rank = A, position = 0, isHighlighted = False\<rparr>,
        \<lparr>card_id = ''hearts-2'', suit = hearts, rank = R2, position = 1, isHighlighted = False\<rparr>,
        \<lparr>card_id = ''hearts-3'', suit = hearts, rank = R3, position = 2, isHighlighted = True\<rparr>]"]
  by (simp add: applyShuffleStep_def js_get_def js_set_def map_indexed_def Let_def)

section \<open>The four shuffles permute the deck\<close>

lemma card_id_renumbered:
  "map card_id (map_indexed (\<lambda>c index. c\<lparr>position := p index, isHighlighted := h index\<rparr>) xs)
     = map card_id xs"
  by (rule nth_equalityI) simp_all

lemma fisherYates_loop_length [simp]:
  "length (fisherYates_loop rnd k i xs) = length xs"
  by (induction i arbitrary: k xs) (simp_all add: Let_def)

lemma fisherYates_loop_mset:
  "i < length xs \<Longrightarrow> mset (fisherYates_loop rnd k i xs) = mset xs"
proof (induction i arbitrary: k xs)
  case 0
  then show ?case by simp
next
  case (Suc i)
  have "random_below (rnd k) (Suc i + 1) < Suc i + 1"
    by (rule random_below_less) simp
  with Suc.prems have "random_below (rnd k) (Suc i + 1) < length xs"
    by simp
  with Suc show ?case
    by (simp add: Let_def mset_swap_at)
qed

lemma riffle_loop_mset:
  "mset (riffle_loop rnd k leftHalf rightHalf leftIndex rightIndex result)
     = mset result + mset (drop leftIndex leftHalf) + mset (drop rightIndex rightHalf)"
proof (induction rnd k leftHalf rightHalf leftIndex rightIndex result rule: riffle_loop.induct)
  case (1 rnd k leftHalf rightHalf leftIndex rightIndex result)
  show ?case
  proof (cases "leftIndex < length leftHalf \<or> rightIndex < length rightHalf")
    case False
    then show ?thesis
      by (subst riffle_loop.simps) simp
  next
    case more: True
    show ?thesis
    proof (cases "leftIndex < length leftHalf
        \<and> (rightIndex \<ge> length rightHalf \<or> draw_val (rnd k) < 1 / 2)")
      case True
      then have "drop leftIndex leftHalf = leftHalf ! leftIndex # drop (Suc leftIndex) leftHalf"
        by (simp add: Cons_nth_drop_Suc)
      with True more "1.IH"(1) show ?thesis
        by (subst riffle_loop.simps) auto
    next
      case False
      with more have "rightIndex < length rightHalf"
        by auto
      then have "drop rightIndex rightHalf
          = rightHalf ! rightIndex # drop (Suc rightIndex) rightHalf"
        by (simp add: Cons_nth_drop_Suc)
      with False more "1.IH"(2) show ?thesis
        by (subst riffle_loop.simps) auto
    qed
  qed
qed

lemma overhand_loop_mset:
  "mset (overhand_loop rnd k shuffledDeck result) = mset shuffledDeck + mset result"
proof (induction rnd k shuffledDeck result rule: overhand_loop.induct)
  case (1 rnd k shuffledDeck result)
  show ?case
  proof (cases "length shuffledDeck > 0")
    case True
    define groupSize where "groupSize = min (length shuffledDeck) (random_below (rnd k) 7 + 1)"
    have "mset (take groupSize shuffledDeck) + mset (drop groupSize shuffledDeck)
        = mset shuffledDeck"
      by (simp flip: mset_append)
    with True "1.IH" [OF True groupSize_def refl] show ?thesis
      by (subst overhand_loop.simps) (simp add: Let_def groupSize_def ac_simps)
  next
    case False
    then show ?thesis
      by (subst overhand_loop.simps) simp
  qed
qed

lemma hindu_loop_mset:
  "mset (hindu_loop rnd k shuffledDeck result) = mset shuffledDeck + mset result"
proof (induction rnd k shuffledDeck result rule: hindu_loop.induct)
  case (1 rnd k shuffledDeck result)
  show ?case
  proof (cases "length shuffledDeck > 0")
    case True
    define packetSize where "packetSize = min (length shuffledDeck) (random_below (rnd k) 6 + 1)"
    have "mset (take (length shuffledDeck - packetSize) shuffledDeck)
        + mset (drop (length shuffledDeck - packetSize) shuffledDeck) = mset shuffledDeck"
      by (simp flip: mset_append)
    with True "1.IH" [OF True packetSize_def refl] show ?thesis
      by (subst hindu_loop.simps) (simp add: Let_def packetSize_def ac_simps)
  next
    case False
    then show ?thesis
      by (subst hindu_loop.simps) simp
  qed
qed

lemma fisherYatesShuffle_mset: "mset (map card_id (fisherYatesShuffle rnd deck)) = mset (map card_id deck)"
proof (cases "deck = []")
  case True
  then show ?thesis
    by (simp add: fisherYatesShuffle_def map_indexed_def)
next
  case False
  then have "length deck - 1 < length deck"
    by (cases deck) simp_all
  then have "mset (fisherYates_loop rnd 0 (length deck - 1) deck) = mset deck"
    by (rule fisherYates_loop_mset)
  then have "mset (map card_id (fisherYates_loop rnd 0 (length deck - 1) deck))
      = mset (map card_id deck)"
    by simp
  then show ?thesis
    by (simp add: fisherYatesShuffle_def card_id_renumbered)
qed

lemma riffleShuffle_mset: "mset (map card_id (riffleShuffle rnd deck)) = mset (map card_id deck)"
proof -
  define sp where "sp = riffle_splitPoint rnd (length deck)"
  have "mset (riffle_loop rnd 1 (take sp deck) (drop sp deck) 0 0 [])
      = mset (take sp deck) + mset (drop sp deck)"
    by (simp add: riffle_loop_mset)
  also have "\<dots> = mset deck"
    by (simp flip: mset_append)
  finally have "mset (map card_id (riffle_loop rnd 1 (take sp deck) (drop sp deck) 0 0 []))
      = mset (map card_id deck)"
    by simp
  then show ?thesis
    by (simp add: riffleShuffle_def Let_def card_id_renumbered sp_def)
qed

lemma overhandShuffle_mset: "mset (map card_id (overhandShuffle rnd deck)) = mset (map card_id deck)"
proof -
  have "mset (map card_id (overhand_loop rnd 0 deck [])) = mset (map card_id deck)"
    by (simp add: overhand_loop_mset)
  then show ?thesis
    by (simp add: overhandShuffle_def card_id_renumbered)
qed

lemma hinduShuffle_mset: "mset (map card_id (hinduShuffle rnd deck)) = mset (map card_id deck)"
proof -
  have "mset (map card_id (hindu_loop rnd 0 deck [])) = mset (map card_id deck)"
    by (simp add: hindu_loop_mset)
  then show ?thesis
    by (simp add: hinduShuffle_def card_id_renumbered)
qed

text \<open>
  Claim C2. For every random source and every deck (of \<open>N \<ge> 1\<close> cards, and the empty deck
  as well), each of \<open>fisherYatesShuffle\<close>, \<open>riffleShuffle\<close>, \<open>overhandShuffle\<close> and
  \<open>hinduShuffle\<close> returns a deck of the same length whose multiset of card ids is that of
  the deck given: the result is a permutation of the input.
\<close>

theorem shuffles_permute:
  "length (fisherYatesShuffle rnd deck) = length deck
   \<and> mset (map card_id (fisherYatesShuffle rnd deck)) = mset (map card_id deck)
   \<and> length (riffleShuffle rnd deck) = length deck
   \<and> mset (map card_id (riffleShuffle rnd deck)) = mset (map card_id deck)
   \<and> length (overhandShuffle rnd deck) = length deck
   \<and> mset (map card_id (overhandShuffle rnd deck)) = mset (map card_id deck)
   \<and> length (hinduShuffle rnd deck) = length deck
   \<and> mset (map card_id (hinduShuffle rnd deck)) = mset (map card_id deck)"
proof -
  have len: "length xs = length deck" if "mset (map card_id xs) = mset (map card_id deck)" for xs
    using that by (metis length_map size_mset)
  show ?thesis
    by (intro conjI len fisherYatesShuffle_mset riffleShuffle_mset overhandShuffle_mset
        hinduShuffle_mset)
qed

section \<open>Replaying the recorded steps\<close>

lemma cards_of_Full [simp]: "cards_of (map Full xs) = Some xs"
  by (induction xs) simp_all

lemma applyShuffleStep_not_swap:
  "action step \<noteq> Swap \<Longrightarrow> applyShuffleStep deck step = map Full (stepped deck step)"
  by (simp add: applyShuffleStep_def stepped_def Let_def map_indexed_map map_map_indexed)

lemma card_order_stepped_not_swap:
  "action step \<noteq> Swap \<Longrightarrow> card_order (stepped deck step) = card_order deck"
  by (simp add: stepped_def card_order_map_indexed)

lemma replay_append:
  "replay deck (ss @ ts) = (case replay deck ss of None \<Rightarrow> None | Some d \<Rightarrow> replay d ts)"
  by (induction ss arbitrary: deck) (simp_all split: option.splits)

lemma replay_not_swap:
  assumes "\<forall>s \<in> set ss. action s \<noteq> Swap"
  shows "\<exists>d. replay deck ss = Some d \<and> card_order d = card_order deck"
  using assms
proof (induction ss arbitrary: deck)
  case Nil
  then show ?case by simp
next
  case (Cons s ss)
  then have s: "action s \<noteq> Swap" and ss: "\<forall>s \<in> set ss. action s \<noteq> Swap"
    by simp_all
  from Cons.IH [OF ss, of "stepped deck s"]
  obtain d where "replay (stepped deck s) ss = Some d" "card_order d = card_order (stepped deck s)"
    by blast
  with s show ?case
    by (simp add: applyShuffleStep_not_swap card_order_stepped_not_swap)
qed

lemma riffleSteps_loop_actions:
  assumes "\<forall>s \<in> set steps. action s \<noteq> Swap"
  shows "\<forall>s \<in> set (riffleSteps_loop rnd k leftHalf rightHalf splitPoint leftIndex rightIndex
            result stepCount steps). action s \<noteq> Swap"
  using assms
proof (induction rnd k leftHalf rightHalf splitPoint leftIndex rightIndex result stepCount steps
    rule: riffleSteps_loop.induct)
  case (1 rnd k leftHalf rightHalf splitPoint leftIndex rightIndex result stepCount steps)
  show ?case
  proof (cases "leftIndex < length leftHalf \<or> rightIndex < length rightHalf")
    case False
    with "1.prems" show ?thesis
      by (subst riffleSteps_loop.simps) simp
  next
    case more: True
    show ?thesis
    proof (cases "leftIndex < length leftHalf
        \<and> (rightIndex \<ge> length rightHalf \<or> draw_val (rnd k) < 1 / 2)")
      case True
      from "1.IH"(1) [OF more True] "1.prems" more True show ?thesis
        by (subst riffleSteps_loop.simps) auto
    next
      case False
      from "1.IH"(2) [OF more False] "1.prems" more False show ?thesis
        by (subst riffleSteps_loop.simps) auto
    qed
  qed
qed

lemma overhandSteps_loop_actions:
  assumes "\<forall>s \<in> set steps. action s \<noteq> Swap"
  shows "\<forall>s \<in> set (overhandSteps_loop rnd k workingDeck result stepCount steps).
           action s \<noteq> Swap"
  using assms
proof (induction rnd k workingDeck result stepCount steps rule: overhandSteps_loop.induct)
  case (1 rnd k workingDeck result stepCount steps)
  show ?case
  proof (cases "length workingDeck > 0")
    case True
    from "1.IH" [OF True refl refl refl refl] "1.prems" True show ?thesis
      by (subst overhandSteps_loop.simps) (simp add: Let_def)
  next
    case False
    with "1.prems" show ?thesis
      by (subst overhandSteps_loop.simps) simp
  qed
qed

lemma hinduSteps_loop_actions:
  assumes "\<forall>s \<in> set steps. action s \<noteq> Swap"
  shows "\<forall>s \<in> set (hinduSteps_loop rnd k workingDeck result stepCount steps).
           action s \<noteq> Swap"
  using assms
proof (induction rnd k workingDeck result stepCount steps rule: hinduSteps_loop.induct)
  case (1 rnd k workingDeck result stepCount steps)
  show ?case
  proof (cases "length workingDeck > 0")
    case True
    from "1.IH" [OF True refl refl refl refl] "1.prems" True show ?thesis
      by (subst hinduSteps_loop.simps) (simp add: Let_def)
  next
    case False
    with "1.prems" show ?thesis
      by (subst hinduSteps_loop.simps) simp
  qed
qed

lemma card_order_swap_at:
  "i < length xs \<Longrightarrow> j < length xs \<Longrightarrow> card_order (swap_at xs i j) = swap_at (card_order xs) i j"
  by (simp add: card_order_def swap_at_def map_update)

lemma fisherYates_replay:
  assumes "i < length w" "replay deck steps = Some d" "card_order d = card_order w"
  shows "\<exists>d'. replay deck (fisherYatesSteps_loop rnd k i w steps) = Some d'
           \<and> card_order d' = card_order (fisherYates_loop rnd k i w)"
  using assms
proof (induction i arbitrary: k w steps d)
  case 0
  then show ?case by simp
next
  case (Suc i)
  define j where "j = random_below (rnd k) (Suc i + 1)"
  define s where "s = \<lparr>description = ''Step '' @ string_of_nat (length steps + 1)
                     @ '': Swap card at position '' @ string_of_nat (Suc i)
                     @ '' with card at position '' @ string_of_nat j,
                  cardIndices = [int (Suc i), int j],
                  action = Swap,
                  fromPositions = [int (Suc i), int j],
                  toPositions = [int j, int (Suc i)]\<rparr>"
  have len: "length d = length w"
    using Suc.prems(3) by (metis length_card_order)
  have "j < Suc i + 1"
    unfolding j_def by (rule random_below_less) simp
  with Suc.prems(1) have j: "j < length w"
    by simp
  have "applyShuffleStep d s = map Full (stepped d s)"
    using j Suc.prems(1) len by (intro applyShuffleStep_stepped) (simp add: s_def)
  then have r: "replay deck (steps @ [s]) = Some (stepped d s)"
    using Suc.prems(2) by (simp add: replay_append)
  have "nat (1 + int i) = Suc i"
    by linarith
  then have "card_order (stepped d s) = card_order (swap_at d (Suc i) j)"
    by (simp add: stepped_def s_def card_order_map_indexed)
  also have "\<dots> = card_order (swap_at w (Suc i) j)"
    using j Suc.prems(1,3) len by (simp add: card_order_swap_at)
  finally have o: "card_order (stepped d s) = card_order (swap_at w (Suc i) j)" .
  have "i < length (swap_at w (Suc i) j)"
    using Suc.prems(1) by simp
  from Suc.IH [OF this r o, of "Suc k"] show ?case
    by (simp add: Let_def j_def s_def)
qed

lemma fisherYates_replay_order:
  "\<exists>d. replay deck (fisherYatesShuffleSteps rnd deck) = Some d
       \<and> card_order d = card_order (fisherYatesShuffle rnd deck)"
proof (cases "deck = []")
  case True
  then show ?thesis
    by (simp add: fisherYatesShuffleSteps_def fisherYatesShuffle_def card_order_def)
next
  case False
  then have "length deck - 1 < length deck"
    by (cases deck) simp_all
  from fisherYates_replay [OF this, of deck "[]" deck rnd 0] show ?thesis
    by (simp add: fisherYatesShuffleSteps_def fisherYatesShuffle_def card_order_map_indexed)
qed

lemma riffle_replay_order:
  "\<exists>d. replay deck (riffleShuffleSteps rnd deck) = Some d \<and> card_order d = card_order deck"
  unfolding riffleShuffleSteps_def Let_def
  by (rule replay_not_swap, rule riffleSteps_loop_actions) simp

lemma overhand_replay_order:
  "\<exists>d. replay deck (overhandShuffleSteps rnd deck) = Some d \<and> card_order d = card_order deck"
  unfolding overhandShuffleSteps_def
  by (rule replay_not_swap, rule overhandSteps_loop_actions) simp

lemma hindu_replay_order:
  "\<exists>d. replay deck (hinduShuffleSteps rnd deck) = Some d \<and> card_order d = card_order deck"
  unfolding hinduShuffleSteps_def
  by (rule replay_not_swap, rule hinduSteps_loop_actions) simp

text \<open>
  Claim C1, as the code has it. Whatever the deck and the random source, replaying the steps
  \<open>fisherYatesShuffleSteps\<close> records, from the deck given, yields the card order of
  \<open>fisherYatesShuffle\<close> under the same draws. The steps recorded for the riffle, the overhand and
  the Hindu shuffle are \<open>Split\<close> and \<open>Move\<close> steps, which \<open>applyShuffleStep\<close> only highlights:
  replaying them yields the card order of the deck given.
\<close>

theorem replay_of_recorded_steps:
  "(\<exists>d. replay deck (fisherYatesShuffleSteps rnd deck) = Some d
         \<and> card_order d = card_order (fisherYatesShuffle rnd deck))
   \<and> (\<exists>d. replay deck (riffleShuffleSteps rnd deck) = Some d \<and> card_order d = card_order deck)
   \<and> (\<exists>d. replay deck (overhandShuffleSteps rnd deck) = Some d \<and> card_order d = card_order deck)
   \<and> (\<exists>d. replay deck (hinduShuffleSteps rnd deck) = Some d \<and> card_order d = card_order deck)"
  by (intro conjI fisherYates_replay_order riffle_replay_order overhand_replay_order
      hindu_replay_order)

lemma random_below_0 [simp]: "random_below (Abs_draw 0) n = 0"
  by (simp add: random_below_def Abs_draw_inverse)

lemma draw_val_half [simp]: "draw_val (Abs_draw (1 / 2)) = 1 / 2"
  by (simp add: Abs_draw_inverse)

lemma overhand_replayed:
  "map_option card_order (replay deck (overhandShuffleSteps rnd deck)) = Some (card_order deck)"
  using overhand_replay_order [of deck rnd] by auto

lemma hindu_replayed:
  "map_option card_order (replay deck (hinduShuffleSteps rnd deck)) = Some (card_order deck)"
  using hindu_replay_order [of deck rnd] by auto

lemma riffle_replayed:
  "map_option card_order (replay deck (riffleShuffleSteps rnd deck)) = Some (card_order deck)"
  using riffle_replay_order [of deck rnd] by auto

text \<open>
  Claim C1 as stated, for every algorithm: the replay yields the order of the bulk variant under
  the same draws. With two cards and every draw \<open>0\<close>, the overhand and the Hindu shuffle take
  one card at a time and return the two cards exchanged; with every draw \<open>1 / 2\<close> the riffle
  shuffle splits after the first card and takes the right card first. The replay of the steps
  recorded under the same draws leaves the two cards in their order.
\<close>

theorem replay_differs_from_bulk_counterexample:
  "map_option card_order
     (replay
       [\<lparr>card_id = ''hearts-A'', suit = hearts, rank = A, position = 0, isHighlighted = False\<rparr>,
        \<lparr>card_id = ''hearts-2'', suit = hearts, rank = R2, position = 1, isHighlighted = False\<rparr>]
       (overhandShuffleSteps (\<lambda>k. Abs_draw 0)
         [\<lparr>card_id = ''hearts-A'', suit = hearts, rank = A, position = 0, isHighlighted = False\<rparr>,
          \<lparr>card_id = ''hearts-2'', suit = hearts, rank = R2, position = 1, isHighlighted = False\<rparr>]))
     = Some [(''hearts-A'', hearts, A), (''hearts-2'', hearts, R2)]
   \<and> card_order
     (overhandShuffle (\<lambda>k. Abs_draw 0)
       [\<lparr>card_id = ''hearts-A'', suit = hearts, rank = A, position = 0, isHighlighted = False\<rparr>,
        \<lparr>card_id = ''hearts-2'', suit = hearts, rank = R2, position = 1, isHighlighted = False\<rparr>])
     = [(''hearts-2'', hearts, R2), (''hearts-A'', hearts, A)]
   \<and> map_option card_order
     (replay
       [\<lparr>card_id = ''hearts-A'', suit = hearts, rank = A, position = 0, isHighlighted = False\<rparr>,
        \<lparr>card_id = ''hearts-2'', suit = hearts, rank = R2, position = 1, isHighlighted = False\<rparr>]
       (hinduShuffleSteps (\<lambda>k. Abs_draw 0)
         [\<lparr>card_id = ''hearts-A'', suit = hearts, rank = A, position = 0, isHighlighted = False\<rparr>,
          \<lparr>card_id = ''hearts-2'', suit = hearts, rank = R2, position = 1, isHighlighted = False\<rparr>]))
     = Some [(''hearts-A'', hearts, A), (''hearts-2'', hearts, R2)]
   \<and> card_order
     (hinduShuffle (\<lambda>k. Abs_draw 0)
       [\<lparr>card_id = ''hearts-A'', suit = hearts, rank = A, position = 0, isHighlighted = False\<rparr>,
        \<lparr>card_id = ''hearts-2'', suit = hearts, rank = R2, position = 1, isHighlighted = False\<rparr>])
     = [(''hearts-2'', hearts, R2), (''hearts-A'', hearts, A)]
   \<and> map_option card_order
     (replay
       [\<lparr>card_id = ''hearts-A'', suit = hearts, rank = A, position = 0, isHighlighted = False\<rparr>,
        \<lparr>card_id = ''hearts-2'', suit = hearts, rank = R2, position = 1, isHighlighted = False\<rparr>]
       (riffleShuffleSteps (\<lambda>k. Abs_draw (1 / 2))
         [\<lparr>card_id = ''hearts-A'', suit = hearts, rank = A, position = 0, isHighlighted = False\<rparr>,
          \<lparr>card_id = ''hearts-2'', suit = hearts, rank = R2, position = 1, isHighlighted = False\<rparr>]))
     = Some [(''hearts-A'', hearts, A), (''hearts-2'', hearts, R2)]
   \<and> card_order
     (riffleShuffle (\<lambda>k. Abs_draw (1 / 2))
       [\<lparr>card_id = ''hearts-A'', suit = hearts, rank = A, position = 0, isHighlighted = False\<rparr>,
        \<lparr>card_id = ''hearts-2'', suit = hearts, rank = R2, position = 1, isHighlighted = False\<rparr>])
     = [(''hearts-2'', hearts, R2), (''hearts-A'', hearts, A)]"
proof (intro conjI)
  show "card_order
     (overhandShuffle (\<lambda>k. Abs_draw 0)
       [\<lparr>card_id = ''hearts-A'', suit = hearts, rank = A, position = 0, isHighlighted = False\<rparr>,
        \<lparr>card_id = ''hearts-2'', suit = hearts, rank = R2, position = 1, isHighlighted = False\<rparr>])
     = [(''hearts-2'', hearts, R2), (''hearts-A'', hearts, A)]"
    by (simp add: overhandShuffle_def overhand_loop.simps card_order_map_indexed)
      (simp add: card_order_def)
  show "card_order
     (hinduShuffle (\<lambda>k. Abs_draw 0)
       [\<lparr>card_id = ''hearts-A'', suit = hearts, rank = A, position = 0, isHighlighted = False\<rparr>,
        \<lparr>card_id = ''hearts-2'', suit = hearts, rank = R2, position = 1, isHighlighted = False\<rparr>])
     = [(''hearts-2'', hearts, R2), (''hearts-A'', hearts, A)]"
    by (simp add: hinduShuffle_def hindu_loop.simps card_order_map_indexed)
      (simp add: card_order_def)
  show "card_order
     (riffleShuffle (\<lambda>k. Abs_draw (1 / 2))
       [\<lparr>card_id = ''hearts-A'', suit = hearts, rank = A, position = 0, isHighlighted = False\<rparr>,
        \<lparr>card_id = ''hearts-2'', suit = hearts, rank = R2, position = 1, isHighlighted = False\<rparr>])
     = [(''hearts-2'', hearts, R2), (''hearts-A'', hearts, A)]"
    by (simp add: riffleShuffle_def riffle_splitPoint_def random_below_def riffle_loop.simps
        card_order_map_indexed)
      (simp add: card_order_def)
qed (simp_all add: overhand_replayed hindu_replayed riffle_replayed, simp_all add: card_order_def)

section \<open>The displacement score\<close>

lemma map_indexed_upt: "map_indexed f xs = map (\<lambda>i. f (xs ! i) i) [0..<length xs]"
  by (rule nth_equalityI) simp_all

lemma findIndex_from_takeWhile:
  "findIndex_from p k xs =
     (if \<exists>x \<in> set xs. p x then int (k + length (takeWhile (\<lambda>x. \<not> p x) xs)) else - 1)"
  by (induction xs arbitrary: k) auto

lemma findIndex_found:
  assumes "\<exists>x \<in> set xs. p x"
  shows "findIndex p xs = int (length (takeWhile (\<lambda>x. \<not> p x) xs))"
  using assms by (simp add: findIndex_def findIndex_from_takeWhile)

lemma shuffledPosition_new_index:
  assumes "mset (map card_id originalDeck) = mset (map card_id shuffledDeck)"
    "i < length originalDeck"
  shows "findIndex (\<lambda>c. card_id c = card_id (originalDeck ! i)) shuffledDeck
       = int (new_index shuffledDeck (originalDeck ! i))"
proof -
  have "card_id (originalDeck ! i) \<in> set (map card_id originalDeck)"
    using assms(2) by simp
  then have "card_id (originalDeck ! i) \<in> set (map card_id shuffledDeck)"
    using assms(1) by (metis set_mset_mset)
  then have "\<exists>c \<in> set shuffledDeck. card_id c = card_id (originalDeck ! i)"
    by auto
  then show ?thesis
    by (simp add: findIndex_found new_index_def)
qed

lemma displacement_fold:
  assumes "\<forall>i \<in> set is. pos i = int (ni i)"
  shows "fold (\<lambda>i (displacedCards, totalDisplacement).
             if pos i \<noteq> int i
             then (displacedCards + 1, totalDisplacement + \<bar>pos i - int i\<bar>)
             else (displacedCards, totalDisplacement)) is (dc, td)
       = (dc + length (filter (\<lambda>d. d \<noteq> 0) (map (\<lambda>i. nat \<bar>int (ni i) - int i\<bar>) is)),
          td + int (sum_list (map (\<lambda>i. nat \<bar>int (ni i) - int i\<bar>) is)))"
  using assms
proof (induction "is" arbitrary: dc td)
  case Nil
  show ?case by simp
next
  case (Cons i "is")
  then have p: "pos i = int (ni i)" and rest: "\<forall>i \<in> set is. pos i = int (ni i)"
    by simp_all
  show ?case
  proof (cases "ni i = i")
    case True
    with p Cons.IH [OF rest] show ?thesis
      by simp
  next
    case False
    with p Cons.IH [OF rest] show ?thesis
      by simp
  qed
qed

lemma displacement_loop_counts:
  assumes "mset (map card_id originalDeck) = mset (map card_id shuffledDeck)"
  shows "displacement_loop originalDeck shuffledDeck
       = (length (filter (\<lambda>d. d \<noteq> 0) (displacements originalDeck shuffledDeck)),
          int (sum_list (displacements originalDeck shuffledDeck)))"
proof -
  have "\<forall>i \<in> set [0..<length originalDeck].
          findIndex (\<lambda>c. card_id c = card_id (originalDeck ! i)) shuffledDeck
          = int (new_index shuffledDeck (originalDeck ! i))"
    using assms by (simp add: shuffledPosition_new_index)
  from displacement_fold [OF this, of 0 0] show ?thesis
    by (simp add: displacement_loop_def displacements_def map_indexed_upt Let_def)
qed

lemma calculateRandomnessMetrics_any_arithmetic:
  assumes "mset (map card_id originalDeck) = mset (map card_id shuffledDeck)"
    and "\<forall>x y. n_mul ar x y = n_mul ar y x"
  shows "calculateRandomnessMetrics ar originalDeck shuffledDeck
       = displacement_score ar originalDeck shuffledDeck"
proof -
  have "length originalDeck = length shuffledDeck"
    using assms(1) by (metis length_map size_mset)
  then show ?thesis
    using assms(2)
    by (simp add: calculateRandomnessMetrics_def displacement_loop_counts [OF assms(1)]
        displacement_score_def displacedFraction_def normalizedMeanDisplacement_def)
qed

lemma double_mul_commute: "n_mul double x y = n_mul double y x"
  by (cases x; cases y) (simp_all add: double_def d_mul_def mult.commute)

lemma exact_mul_commute: "n_mul exact x y = n_mul exact y x"
  by (cases x; cases y) (simp_all add: exact_def)

text \<open>
  The doubles of the score of eight cards of which three have moved, by \<open>1\<close>, \<open>1\<close> and \<open>2\<close>
  places: \<open>3 / 8 = 0.375\<close> and \<open>(4 / 8) / (8 / 2) = 0.125\<close> are exact, the double of \<open>0.6\<close> is
  below \<open>0.6\<close>, and the sum of the two products, times \<open>100\<close>, is the double
  \<open>27.499999999999996\<close> below \<open>27.5\<close>.
\<close>

lemma double_score_8_3_4:
  "d_mul
     (d_add (d_mul (d_div (fl 3) (fl 8)) (fl (6 / 10)))
        (d_mul (min (d_div (d_div (fl 4) (fl 8)) (d_div (fl 8) (fl 2))) (fl 1)) (fl (4 / 10))))
     (fl 100)
   = 7740561859543039 / 281474976710656"
  by (simp add: double_eval)

lemma double_score_2_1_1:
  "d_mul
     (d_add (d_mul (d_div (fl 1) (fl 2)) (fl (6 / 10)))
        (d_mul (min (d_div (d_div (fl 1) (fl 2)) (d_div (fl 2) (fl 2))) (fl 1)) (fl (4 / 10))))
     (fl 100)
   = 50"
  by (simp add: double_eval)

lemma double_score_3_3_4:
  "d_mul (fl 100)
     (d_add (d_mul (fl (6 / 10)) (d_div (fl 3) (fl 3)))
        (d_mul (fl (4 / 10)) (min (d_div (d_div (fl 4) (fl 3)) (d_div (fl 3) (fl 2))) (fl 1))))
   = 840515555455431 / 8796093022208"
  by (simp add: double_eval)

text \<open>
  Claim C4 as stated: the score is
  \<open>round(100 \<times> (0.6 \<times> displacedFraction + 0.4 \<times> normalizedMeanDisplacement))\<close>. With eight
  cards of which the first three are moved round by one place, \<open>displacedFraction = 3 / 8\<close>,
  \<open>normalizedMeanDisplacement = (4 / 8) / 4 = 1 / 8\<close> and the formula is
  \<open>round(100 \<times> 0.275) = round(27.5) = 28\<close>; the function, which computes in doubles,
  returns \<open>27\<close> (its own expression gives \<open>28\<close> too when it is computed exactly). And with
  two identical decks in which one id occurs twice no item has moved, yet the score is \<open>50\<close>:
  the new index of an item is the first index that holds its id.
\<close>

theorem calculateRandomnessMetrics_rounding_counterexample:
  "calculateRandomnessMetrics double
     [\<lparr>card_id = ''hearts-A'', suit = hearts, rank = A, position = 0, isHighlighted = False\<rparr>,
      \<lparr>card_id = ''hearts-2'', suit = hearts, rank = R2, position = 1, isHighlighted = False\<rparr>,
      \<lparr>card_id = ''hearts-3'', suit = hearts, rank = R3, position = 2, isHighlighted = False\<rparr>,
      \<lparr>card_id = ''hearts-4'', suit = hearts, rank = R4, position = 3, isHighlighted = False\<rparr>,
      \<lparr>card_id = ''hearts-5'', suit = hearts, rank = R5, position = 4, isHighlighted = False\<rparr>,
      \<lparr>card_id = ''hearts-6'', suit = hearts, rank = R6, position = 5, isHighlighted = False\<rparr>,
      \<lparr>card_id = ''hearts-7'', suit = hearts, rank = R7, position = 6, isHighlighted = False\<rparr>,
      \<lparr>card_id = ''hearts-8'', suit = hearts, rank = R8, position = 7, isHighlighted = False\<rparr>]
     [\<lparr>card_id = ''hearts-3'', suit = hearts, rank = R3, position = 0, isHighlighted = False\<rparr>,
      \<lparr>card_id = ''hearts-A'', suit = hearts, rank = A, position = 1, isHighlighted = False\<rparr>,
      \<lparr>card_id = ''hearts-2'', suit = hearts, rank = R2, position = 2, isHighlighted = False\<rparr>,
      \<lparr>card_id = ''hearts-4'', suit = hearts, rank = R4, position = 3, isHighlighted = False\<rparr>,
      \<lparr>card_id = ''hearts-5'', suit = hearts, rank = R5, position = 4, isHighlighted = False\<rparr>,
      \<lparr>card_id = ''hearts-6'', suit = hearts, rank = R6, position = 5, isHighlighted = False\<rparr>,
      \<lparr>card_id = ''hearts-7'', suit = hearts, rank = R7, position = 6, isHighlighted = False\<rparr>,
      \<lparr>card_id = ''hearts-8'', suit = hearts, rank = R8, position = 7, isHighlighted = False\<rparr>]
     = Num 27
   \<and> displacement_score exact
     [\<lparr>card_id = ''hearts-A'', suit = hearts, rank = A, position = 0, isHighlighted = False\<rparr>,
      \<lparr>card_id = ''hearts-2'', suit = hearts, rank = R2, position = 1, isHighlighted = False\<rparr>,
      \<lparr>card_id = ''hearts-3'', suit = hearts, rank = R3, position = 2, isHighlighted = False\<rparr>,
      \<lparr>card_id = ''hearts-4'', suit = hearts, rank = R4, position = 3, isHighlighted = False\<rparr>,
      \<lparr>card_id = ''hearts-5'', suit = hearts, rank = R5, position = 4, isHighlighted = False\<rparr>,
      \<lparr>card_id = ''hearts-6'', suit = hearts, rank = R6, position = 5, isHighlighted = False\<rparr>,
      \<lparr>card_id = ''hearts-7'', suit = hearts, rank = R7, position = 6, isHighlighted = False\<rparr>,
      \<lparr>card_id = ''hearts-8'', suit = hearts, rank = R8, position = 7, isHighlighted = False\<rparr>]
     [\<lparr>card_id = ''hearts-3'', suit = hearts, rank = R3, position = 0, isHighlighted = False\<rparr>,
      \<lparr>card_id = ''hearts-A'', suit = hearts, rank = A, position = 1, isHighlighted = False\<rparr>,
      \<lparr>card_id = ''hearts-2'', suit = hearts, rank = R2, position = 2, isHighlighted = False\<rparr>,
      \<lparr>card_id = ''hearts-4'', suit = hearts, rank = R4, position = 3, isHighlighted = False\<rparr>,
      \<lparr>card_id = ''hearts-5'', suit = hearts, rank = R5, position = 4, isHighlighted = False\<rparr>,
      \<lparr>card_id = ''hearts-6'', suit = hearts, rank = R6, position = 5, isHighlighted = False\<rparr>,
      \<lparr>card_id = ''hearts-7'', suit = hearts, rank = R7, position = 6, isHighlighted = False\<rparr>,
      \<lparr>card_id = ''hearts-8'', suit = hearts, rank = R8, position = 7, isHighlighted = False\<rparr>]
     = Num 28
   \<and> calculateRandomnessMetrics exact
     [\<lparr>card_id = ''hearts-A'', suit = hearts, rank = A, position = 0, isHighlighted = False\<rparr>,
      \<lparr>card_id = ''hearts-2'', suit = hearts, rank = R2, position = 1, isHighlighted = False\<rparr>,
      \<lparr>card_id = ''hearts-3'', suit = hearts, rank = R3, position = 2, isHighlighted = False\<rparr>,
      \<lparr>card_id = ''hearts-4'', suit = hearts, rank = R4, position = 3, isHighlighted = False\<rparr>,
      \<lparr>card_id = ''hearts-5'', suit = hearts, rank = R5, position = 4, isHighlighted = False\<rparr>,
      \<lparr>card_id = ''hearts-6'', suit = hearts, rank = R6, position = 5, isHighlighted = False\<rparr>,
      \<lparr>card_id = ''hearts-7'', suit = hearts, rank = R7, position = 6, isHighlighted = False\<rparr>,
      \<lparr>card_id = ''hearts-8'', suit = hearts, rank = R8, position = 7, isHighlighted = False\<rparr>]
     [\<lparr>card_id = ''hearts-3'', suit = hearts, rank = R3, position = 0, isHighlighted = False\<rparr>,
      \<lparr>card_id = ''hearts-A'', suit = hearts, rank = A, position = 1, isHighlighted = False\<rparr>,
      \<lparr>card_id = ''hearts-2'', suit = hearts, rank = R2, position = 2, isHighlighted = False\<rparr>,
      \<lparr>card_id = ''hearts-4'', suit = hearts, rank = R4, position = 3, isHighlighted = False\<rparr>,
      \<lparr>card_id = ''hearts-5'', suit = hearts, rank = R5, position = 4, isHighlighted = False\<rparr>,
      \<lparr>card_id = ''hearts-6'', suit = hearts, rank = R6, position = 5, isHighlighted = False\<rparr>,
      \<lparr>card_id = ''hearts-7'', suit = hearts, rank = R7, position = 6, isHighlighted = False\<rparr>,
      \<lparr>card_id = ''hearts-8'', suit = hearts, rank = R8, position = 7, isHighlighted = False\<rparr>]
     = Num 28
   \<and> calculateRandomnessMetrics double
     [\<lparr>card_id = ''hearts-A'', suit = hearts, rank = A, position = 0, isHighlighted = False\<rparr>,
      \<lparr>card_id = ''hearts-A'', suit = hearts, rank = A, position = 1, isHighlighted = False\<rparr>]
     [\<lparr>card_id = ''hearts-A'', suit = hearts, rank = A, position = 0, isHighlighted = False\<rparr>,
      \<lparr>card_id = ''hearts-A'', suit = hearts, rank = A, position = 1, isHighlighted = False\<rparr>]
     = Num 50"
    (is "calculateRandomnessMetrics double ?original ?shuffled = Num 27
       \<and> displacement_score exact ?original ?shuffled = Num 28
       \<and> calculateRandomnessMetrics exact ?original ?shuffled = Num 28
       \<and> calculateRandomnessMetrics double ?twice ?twice = Num 50")
proof -
  have loop: "displacement_loop ?original ?shuffled = (3, 4)"
    by (simp add: displacement_loop_def findIndex_def upt_rec)
  have "calculateRandomnessMetrics double ?original ?shuffled
      = Num (of_int (Math_round
          (d_mul
            (d_add (d_mul (d_div (fl 3) (fl 8)) (fl (6 / 10)))
               (d_mul (min (d_div (d_div (fl 4) (fl 8)) (d_div (fl 8) (fl 2))) (fl 1))
                  (fl (4 / 10))))
            (fl 100))))"
    by (simp add: calculateRandomnessMetrics_def loop double_def fl_nonzero)
  then have code: "calculateRandomnessMetrics double ?original ?shuffled = Num 27"
    by (simp only: double_score_8_3_4) (simp add: Math_round_def)
  have "displacements ?original ?shuffled = [1, 1, 2, 0, 0, 0, 0, 0]"
    by (simp add: displacements_def new_index_def map_indexed_def upt_rec)
  then have spec: "displacement_score exact ?original ?shuffled = Num 28"
    by (simp add: displacement_score_def displacedFraction_def normalizedMeanDisplacement_def
        exact_def Math_round_def)
  have exact: "calculateRandomnessMetrics exact ?original ?shuffled = Num 28"
    by (simp add: calculateRandomnessMetrics_def loop exact_def Math_round_def)
  have loop2: "displacement_loop ?twice ?twice = (1, 1)"
    by (simp add: displacement_loop_def findIndex_def upt_rec)
  have "calculateRandomnessMetrics double ?twice ?twice
      = Num (of_int (Math_round
          (d_mul
            (d_add (d_mul (d_div (fl 1) (fl 2)) (fl (6 / 10)))
               (d_mul (min (d_div (d_div (fl 1) (fl 2)) (d_div (fl 2) (fl 2))) (fl 1))
                  (fl (4 / 10))))
            (fl 100))))"
    by (simp add: calculateRandomnessMetrics_def loop2 double_def fl_nonzero)
  then have twice: "calculateRandomnessMetrics double ?twice ?twice = Num 50"
    by (simp only: double_score_2_1_1) (simp add: Math_round_def)
  from code spec exact twice show ?thesis
    by (intro conjI)
qed

text \<open>
  Claim C4, as the code has it. For every two decks with the same multiset of ids (so of the
  same length \<open>N\<close>; \<open>N \<ge> 1\<close> is not needed), \<open>calculateRandomnessMetrics\<close> returns
  \<open>round(100 \<times> (0.6 \<times> displacedFraction + 0.4 \<times> normalizedMeanDisplacement))\<close> with every
  quotient, product and sum of the formula rounded to the nearest double, where
  \<open>displacedFraction = count(d \<noteq> 0) / N\<close>,
  \<open>normalizedMeanDisplacement = min(mean(d) / (N / 2), 1)\<close> and \<open>d\<close> is, for each item, the
  distance between its original index and the first index of the shuffled sequence that
  holds its id.
\<close>

theorem calculateRandomnessMetrics_double_formula:
  assumes "mset (map card_id originalDeck) = mset (map card_id shuffledDeck)"
  shows "calculateRandomnessMetrics double originalDeck shuffledDeck
       = displacement_score double originalDeck shuffledDeck"
  using assms double_mul_commute by (intro calculateRandomnessMetrics_any_arithmetic) simp_all

text \<open>
  Three cards moved round by one place: the distances are \<open>1\<close>, \<open>1\<close> and \<open>2\<close>, and the score
  is the double \<open>95.55555555555554\<close> of \<open>100 \<times> (0.6 + 0.4 \<times> 8 / 9)\<close>, rounded.
\<close>

theorem calculateRandomnessMetrics_double_formula_witness:
  "calculateRandomnessMetrics double
     [\<lparr>card_id = ''hearts-A'', suit = hearts, rank = A, position = 0, isHighlighted = False\<rparr>,
      \<lparr>card_id = ''hearts-2'', suit = hearts, rank = R2, position = 1, isHighlighted = False\<rparr>,
      \<lparr>card_id = ''hearts-3'', suit = hearts, rank = R3, position = 2, isHighlighted = False\<rparr>]
     [\<lparr>card_id = ''hearts-3'', suit = hearts, rank = R3, position = 0, isHighlighted = False\<rparr>,
      \<lparr>card_id = ''hearts-A'', suit = hearts, rank = A, position = 1, isHighlighted = False\<rparr>,
      \<lparr>card_id = ''hearts-2'', suit = hearts, rank = R2, position = 2, isHighlighted = False\<rparr>]
     = Num 96"
    (is "calculateRandomnessMetrics double ?original ?shuffled = Num 96")
proof -
  have m: "mset (map card_id ?original) = mset (map card_id ?shuffled)"
    by simp
  have "displacements ?original ?shuffled = [1, 1, 2]"
    by (simp add: displacements_def new_index_def map_indexed_def upt_rec)
  then have "displacement_score double ?original ?shuffled
      = Num (of_int (Math_round
          (d_mul (fl 100)
            (d_add (d_mul (fl (6 / 10)) (d_div (fl 3) (fl 3)))
               (d_mul (fl (4 / 10))
                  (min (d_div (d_div (fl 4) (fl 3)) (d_div (fl 3) (fl 2))) (fl 1)))))))"
    by (simp add: displacement_score_def displacedFraction_def normalizedMeanDisplacement_def
        double_def fl_nonzero)
  then have "displacement_score double ?original ?shuffled = Num 96"
    by (simp only: double_score_3_3_4) (simp add: Math_round_def)
  with calculateRandomnessMetrics_double_formula [OF m] show ?thesis
    by simp
qed

section \<open>Statistics\<close>

lemma js_greater_Num_iff: "js_greater x y \<longleftrightarrow> (\<exists>a b. x = Num a \<and> y = Num b \<and> b < a)"
  by (cases x; cases y) auto

text \<open>
  Claim C7, as the code has it. \<open>compareAlgorithms stats1 stats2\<close> names \<open>stats1\<close> the winner
  for randomness exactly when both scores are numbers and the score of \<open>stats1\<close> is
  strictly higher, for speed exactly when \<open>getAverageExecutionTime stats1\<close> (the rounded mean
  of the times, \<open>0\<close> without any) is strictly lower, and for steps exactly when
  \<open>averageSteps stats1\<close> is strictly lower; in every other case, a tie among them, the winner is
  the second algorithm \<open>stats2\<close>. With the scores \<open>90\<close> and \<open>70\<close> the randomness winner is
  \<open>stats1\<close>.
\<close>

theorem compareAlgorithms_winners:
  "winner (randomnessComparison (compareAlgorithms stats1 stats2)) =
     (if \<exists>a b. randomnessScore stats1 = Num a \<and> randomnessScore stats2 = Num b \<and> b < a
      then algorithmName stats1 else algorithmName stats2)
   \<and> winner (speedComparison (compareAlgorithms stats1 stats2)) =
     (if getAverageExecutionTime stats1 < getAverageExecutionTime stats2
      then algorithmName stats1 else algorithmName stats2)
   \<and> winner (stepComparison (compareAlgorithms stats1 stats2)) =
     (if averageSteps stats1 < averageSteps stats2
      then algorithmName stats1 else algorithmName stats2)
   \<and> (randomnessScore stats1 = Num 90 \<and> randomnessScore stats2 = Num 70 \<longrightarrow>
        winner (randomnessComparison (compareAlgorithms stats1 stats2)) = algorithmName stats1)"
  by (simp add: compareAlgorithms_def js_greater_Num_iff)

text \<open>
  Claim C7 as stated has the first algorithm win a tie. With equal scores, equal times and
  equal step counts the three winners are the second algorithm.
\<close>

theorem compareAlgorithms_tie_counterexample:
  "winner (randomnessComparison (compareAlgorithms
      \<lparr>algorithmName = ''A'', shuffleCount = 1, averageSteps = 51, randomnessScore = Num 80,
        executionTimes = [3]\<rparr>
      \<lparr>algorithmName = ''B'', shuffleCount = 1, averageSteps = 51, randomnessScore = Num 80,
        executionTimes = [3]\<rparr>)) = ''B''
   \<and> winner (speedComparison (compareAlgorithms
      \<lparr>algorithmName = ''A'', shuffleCount = 1, averageSteps = 51, randomnessScore = Num 80,
        executionTimes = [3]\<rparr>
      \<lparr>algorithmName = ''B'', shuffleCount = 1, averageSteps = 51, randomnessScore = Num 80,
        executionTimes = [3]\<rparr>)) = ''B''
   \<and> winner (stepComparison (compareAlgorithms
      \<lparr>algorithmName = ''A'', shuffleCount = 1, averageSteps = 51, randomnessScore = Num 80,
        executionTimes = [3]\<rparr>
      \<lparr>algorithmName = ''B'', shuffleCount = 1, averageSteps = 51, randomnessScore = Num 80,
        executionTimes = [3]\<rparr>)) = ''B''
   \<and> ''B'' \<noteq> ''A''"
  by (simp add: compareAlgorithms_def getAverageExecutionTime_def)

text \<open>The scores \<open>90\<close> and \<open>70\<close> of the specification.\<close>

theorem compareAlgorithms_winners_witness:
  "winner (randomnessComparison (compareAlgorithms
      \<lparr>algorithmName = ''A'', shuffleCount = 1, averageSteps = 51, randomnessScore = Num 90,
        executionTimes = [3]\<rparr>
      \<lparr>algorithmName = ''B'', shuffleCount = 1, averageSteps = 53, randomnessScore = Num 70,
        executionTimes = [2]\<rparr>)) = ''A''"
  using compareAlgorithms_winners
    [of "\<lparr>algorithmName = ''A'', shuffleCount = 1, averageSteps = 51, randomnessScore = Num 90,
        executionTimes = [3]\<rparr>"
        "\<lparr>algorithmName = ''B'', shuffleCount = 1, averageSteps = 53, randomnessScore = Num 70,
        executionTimes = [2]\<rparr>"]
  by simp

lemma calculateRandomnessMetrics_mismatch:
  "length originalDeck \<noteq> length shuffledDeck \<Longrightarrow>
   calculateRandomnessMetrics ar originalDeck shuffledDeck = n_lit ar 0"
  by (simp add: calculateRandomnessMetrics_def)

lemma log2_half: "log 2 (1 / 2) = - 1"
  by (simp add: log_divide)

text \<open>
  The entropy of two buckets with one item each, in doubles: the probability \<open>1 / 2\<close> and
  its logarithm \<open>-1\<close> are exact, and so are the two steps \<open>0 + 1 / 2\<close> and \<open>1 / 2 + 1 / 2\<close>.
\<close>

lemma double_half: "d_div 1 2 = 1 / 2"
  by (simp add: double_eval)

lemma double_one_bit:
  "d_sub (d_sub 0 (d_mul (1 / 2) (Math_log2 (1 / 2)))) (d_mul (1 / 2) (Math_log2 (1 / 2))) = 1"
  by (simp add: Math_log2_def log2_half double_eval)

lemma Math_log2_2: "Math_log2 2 = 1"
  by (simp add: Math_log2_def fl_eval)

lemma double_100: "d_mul (d_div 1 1) 100 = 100"
  by (simp add: double_eval)

text \<open>
  Claim C5: both scores are \<open>0\<close> when the two decks differ in length.
  \<open>calculateRandomnessMetrics\<close> checks the lengths first and returns \<open>0\<close>
  (\<open>calculateRandomnessMetrics_mismatch\<close>); \<open>calculateEntropy\<close> has no such check. With two cards before and only the first of them after, the differences are
  \<open>0\<close> and \<open>1\<close>, the two buckets hold one item each, the entropy is one bit of one, and the
  score is \<open>100\<close>.
\<close>

theorem calculateEntropy_length_mismatch:
  "calculateRandomnessMetrics ar
     [\<lparr>card_id = ''hearts-A'', suit = hearts, rank = A, position = 0, isHighlighted = False\<rparr>,
      \<lparr>card_id = ''hearts-2'', suit = hearts, rank = R2, position = 1, isHighlighted = False\<rparr>]
     [\<lparr>card_id = ''hearts-A'', suit = hearts, rank = A, position = 0, isHighlighted = False\<rparr>]
     = n_lit ar 0
   \<and> calculateEntropy
     [\<lparr>card_id = ''hearts-A'', suit = hearts, rank = A, position = 0, isHighlighted = False\<rparr>,
      \<lparr>card_id = ''hearts-2'', suit = hearts, rank = R2, position = 1, isHighlighted = False\<rparr>]
     [\<lparr>card_id = ''hearts-A'', suit = hearts, rank = A, position = 0, isHighlighted = False\<rparr>]
     = Inr 100"
  by (simp add: calculateRandomnessMetrics_def calculateEntropy_def position_differences_def
      position_map_def map_indexed_def fill_buckets_def entropy_of_def numeral_2_eq_2
      double_half double_one_bit Math_log2_2 double_100)

text \<open>
  Claim C10: \<open>calculateEntropy\<close> is total with a result between \<open>0\<close> and \<open>100\<close>, the pair of
  empty decks included. With an empty original deck, whatever the other deck, there is no
  difference to take the maximum of, and the array of buckets is asked with the length
  \<^verbatim>\<open>-Infinity + 1\<close>: the function throws.
\<close>

theorem calculateEntropy_empty_throws:
  "calculateEntropy [] shuffledDeck = Inl RangeError"
  by (simp add: calculateEntropy_def position_differences_def map_indexed_def)

text \<open>
  The three quotients of the step counts \<open>13\<close>, \<open>14\<close> and \<open>13\<close> below, in doubles: \<open>13\<close> and
  \<open>27 / 2\<close> are exact, and \<open>41 / 3\<close> is rounded to a double next to it.
\<close>

lemma double_steps_13: "d_div (d_add (d_mul 0 0) 13) 1 = 13"
  by (simp add: double_eval)

lemma double_steps_27: "d_div (d_add (d_mul 13 1) 14) 2 = 27 / 2"
  by (simp add: double_eval)

lemma double_steps_41: "d_div (d_add (d_mul 14 2) 13) 3 = 7693649363424597 / 562949953421312"
  by (simp add: double_eval)

text \<open>
  Claim C6: after \<open>k\<close> updates with the step counts \<open>s\<^sub>1 .. s\<^sub>k\<close>, \<open>averageSteps\<close> is the
  rounded mean of them. \<open>updateAlgorithmStatistics\<close> rebuilds the total of the steps from the
  average it stored, which is rounded already. After the step counts \<open>13\<close>, \<open>14\<close> and \<open>13\<close>
  the stored averages are \<open>13\<close>, \<open>14\<close> (from \<open>13.5\<close>) and \<open>14\<close> (from \<open>41 / 3\<close>), where the mean
  \<open>40 / 3\<close> of the three rounds to \<open>13\<close>.
\<close>

theorem averageSteps_rounding_drift:
  "averageSteps
     (updateAlgorithmStatistics
       (updateAlgorithmStatistics
         (updateAlgorithmStatistics (initializeAlgorithmStatistics algo) o1 s1 t1 13)
         o2 s2 t2 14)
       o3 s3 t3 13) = 14
   \<and> Math_round ((13 + 14 + 13) / 3) = 13"
  unfolding updateAlgorithmStatistics_def initializeAlgorithmStatistics_def Let_def
  by (simp add: double_steps_13 double_steps_27 double_steps_41 Math_round_def)

section \<open>Invalid input\<close>

lemma string_of_nat_digit: "n < 10 \<Longrightarrow> string_of_nat n = [digit_char n]"
  by (subst string_of_nat.simps) simp

lemma riffle_splitPoint_empty: "riffle_splitPoint rnd 0 = 1"
  by (simp add: riffle_splitPoint_def Let_def)

lemma getAlgorithmByName_unknown:
  assumes "n \<notin> {''Fisher-Yates'', ''Riffle Shuffle'', ''Overhand Shuffle'', ''Hindu Shuffle''}"
  shows "getAlgorithmByName n = None"
  using assms by (auto simp add: getAlgorithmByName_def SHUFFLE_ALGORITHMS_def)

lemma applyShuffleStep_beyond_end:
  assumes ci: "cardIndices step = [int i1, int i2]" and sw: "action step = Swap"
    and i1: "i1 < length deck" and i2: "length deck \<le> i2" "i2 < 4294967295"
  shows "length (applyShuffleStep deck step) = i2 + 1"
    and "applyShuffleStep deck step ! i1 = Bare (int i1) True"
    and "applyShuffleStep deck step ! i2
           = Full ((deck ! i1)\<lparr>position := int i2, isHighlighted := True\<rparr>)"
    and "\<forall>j. length deck \<le> j \<and> j < i2 \<longrightarrow> applyShuffleStep deck step ! j = Missing"
proof -
  define arr where
    "arr = (map Value deck)[i1 := Undefined] @ replicate (i2 - length deck) Hole @ [Value (deck ! i1)]"
  define f where
    "f = (\<lambda>s index. case s of
               Hole \<Rightarrow> Missing
             | Undefined \<Rightarrow> Bare (int index) (int index \<in> set (cardIndices step))
             | Value c \<Rightarrow>
                 Full (c\<lparr>position := int index,
                             isHighlighted := int index \<in> set (cardIndices step)\<rparr>))"
  have g2: "js_get (map Value deck) (int i2) = Undefined"
    using i2 by (simp add: js_get_def)
  have g1: "js_get (map Value deck) (int i1) = Value (deck ! i1)"
    using i1 by (simp add: js_get_def)
  have s1: "js_set (map Value deck) (int i1) Undefined = (map Value deck)[i1 := Undefined]"
    using i1 by (simp add: js_set_def)
  have s2: "js_set ((map Value deck)[i1 := Undefined]) (int i2) (Value (deck ! i1)) = arr"
    using i2 by (simp add: js_set_def arr_def)
  have res: "applyShuffleStep deck step = map_indexed f arr"
    using ci sw by (simp add: applyShuffleStep_def Let_def g1 g2 s1 s2 f_def)
  have len: "length arr = i2 + 1"
    using i2 by (simp add: arr_def)
  show "length (applyShuffleStep deck step) = i2 + 1"
    by (simp add: res len)
  have "arr ! i1 = Undefined"
    using i1 by (simp add: arr_def nth_append)
  then show "applyShuffleStep deck step ! i1 = Bare (int i1) True"
    using i1 i2 len by (simp add: res f_def ci)
  have "arr ! i2 = Value (deck ! i1)"
    using i2 by (simp add: arr_def nth_append)
  then show "applyShuffleStep deck step ! i2
           = Full ((deck ! i1)\<lparr>position := int i2, isHighlighted := True\<rparr>)"
    using len by (simp add: res f_def ci)
  show "\<forall>j. length deck \<le> j \<and> j < i2 \<longrightarrow> applyShuffleStep deck step ! j = Missing"
  proof (intro allI impI)
    fix j assume j: "length deck \<le> j \<and> j < i2"
    then have "arr ! j = Hole"
      by (auto simp add: arr_def nth_append nth_Cons')
    with j len show "applyShuffleStep deck step ! j = Missing"
      by (simp add: res f_def)
  qed
qed

lemma empty_deck_results:
  "fisherYatesShuffle rnd [] = []" "riffleShuffle rnd [] = []"
  "overhandShuffle rnd [] = []" "hinduShuffle rnd [] = []"
  "fisherYatesShuffleSteps rnd [] = []"
  "riffleShuffleSteps rnd [] =
     [\<lparr>description = ''Step 1: Split deck at position 1 (0 cards left, 0 cards right)'',
         cardIndices = [], action = Split, fromPositions = [], toPositions = []\<rparr>]"
  "overhandShuffleSteps rnd [] = []" "hinduShuffleSteps rnd [] = []"
proof -
  show "fisherYatesShuffle rnd [] = []"
    by (simp add: fisherYatesShuffle_def)
  show "riffleShuffle rnd [] = []"
    by (simp add: riffleShuffle_def riffle_loop.simps)
  show "overhandShuffle rnd [] = []"
    by (simp add: overhandShuffle_def overhand_loop.simps)
  show "hinduShuffle rnd [] = []"
    by (simp add: hinduShuffle_def hindu_loop.simps)
  show "fisherYatesShuffleSteps rnd [] = []"
    by (simp add: fisherYatesShuffleSteps_def)
  show "riffleShuffleSteps rnd [] =
     [\<lparr>description = ''Step 1: Split deck at position 1 (0 cards left, 0 cards right)'',
         cardIndices = [], action = Split, fromPositions = [], toPositions = []\<rparr>]"
    by (simp add: riffleShuffleSteps_def riffle_splitPoint_empty riffleSteps_loop.simps
        array_from_def string_of_nat_digit digit_char_def)
  show "overhandShuffleSteps rnd [] = []"
    by (simp add: overhandShuffleSteps_def overhandSteps_loop.simps)
  show "hinduShuffleSteps rnd [] = []"
    by (simp add: hinduShuffleSteps_def hinduSteps_loop.simps)
qed

lemma getAlgorithmByName_table:
  "getAlgorithmByName n =
     (if n = ''Fisher-Yates'' then Some (SHUFFLE_ALGORITHMS ! 0)
      else if n = ''Riffle Shuffle'' then Some (SHUFFLE_ALGORITHMS ! 1)
      else if n = ''Overhand Shuffle'' then Some (SHUFFLE_ALGORITHMS ! 2)
      else if n = ''Hindu Shuffle'' then Some (SHUFFLE_ALGORITHMS ! 3)
      else None)"
  by (simp add: getAlgorithmByName_def SHUFFLE_ALGORITHMS_def)

subsection \<open>Writes outside the array\<close>

lemma js_set_length: "length xs \<le> length (js_set xs i v)"
  by (simp add: js_set_def)

lemma js_set_nth_other:
  "j < length xs \<Longrightarrow> int j \<noteq> i \<Longrightarrow> js_set xs i v ! j = xs ! j"
  by (auto simp add: js_set_def nth_append)

lemma js_set_nth_same:
  "0 \<le> i \<Longrightarrow> i < int (length xs) \<Longrightarrow> js_set xs i v ! nat i = v"
  by (simp add: js_set_def)

lemma js_get_outside: "\<not> (0 \<le> i \<and> i < int (length xs)) \<Longrightarrow> js_get xs i = Undefined"
  by (auto simp add: js_get_def)

lemma js_get_inside:
  "0 \<le> i \<Longrightarrow> i < int (length xs) \<Longrightarrow> js_get (map Value xs) i = Value (xs ! nat i)"
  by (simp add: js_get_def)

text \<open>The array \<open>applyShuffleStep\<close> maps over, when the step is a swap of \<open>a\<close> and \<open>b\<close>.\<close>

lemma applyShuffleStep_swap:
  assumes "action step = Swap" "cardIndices step = [a, b]"
  shows "applyShuffleStep deck step =
     map_indexed
       (\<lambda>s index. case s of
           Hole \<Rightarrow> Missing
         | Undefined \<Rightarrow> Bare (int index) (int index \<in> set (cardIndices step))
         | Value c \<Rightarrow>
             Full (c\<lparr>position := int index,
                     isHighlighted := int index \<in> set (cardIndices step)\<rparr>))
       (js_set (js_set (map Value deck) a (js_get (map Value deck) b)) b
          (js_get (map Value deck) a))"
  using assms by (simp add: applyShuffleStep_def Let_def)

lemma applyShuffleStep_length_ge: "length deck \<le> length (applyShuffleStep deck step)"
proof -
  have "length deck \<le> length (js_set (js_set (map Value deck) i v) j w)" for i j v w
    using js_set_length [of "map Value deck" i v]
      js_set_length [of "js_set (map Value deck) i v" j w]
    by simp
  then show ?thesis
    by (simp add: applyShuffleStep_def Let_def)
qed

lemma applyShuffleStep_no_swap:
  assumes "\<not> (action step = Swap \<and> length (cardIndices step) = 2)"
  shows "applyShuffleStep deck step =
     map Full
       (map_indexed
         (\<lambda>c index. c\<lparr>position := int index,
                       isHighlighted := int index \<in> set (cardIndices step)\<rparr>)
         deck)"
  using assms by (auto simp add: applyShuffleStep_def Let_def map_indexed_map map_map_indexed)

lemma applyShuffleStep_first_inside:
  assumes sw: "action step = Swap" "cardIndices step = [a, b]"
    and a: "0 \<le> a" "a < int (length deck)"
    and b: "\<not> (0 \<le> b \<and> b < int (length deck))"
  shows "applyShuffleStep deck step ! nat a = Bare a True"
proof -
  define xs where "xs = js_set (map Value deck) a (js_get (map Value deck) b)"
  have ab: "int (nat a) \<noteq> b"
    using a b by auto
  have l: "nat a < length xs"
    using a js_set_length [of "map Value deck" a "js_get (map Value deck) b"]
    by (simp add: xs_def)
  have "xs ! nat a = Undefined"
    using a b by (simp add: xs_def js_set_nth_same js_get_outside)
  then have "js_set xs b (js_get (map Value deck) a) ! nat a = Undefined"
    using l ab by (simp add: js_set_nth_other)
  moreover have "nat a < length (js_set xs b (js_get (map Value deck) a))"
    using l js_set_length [of xs b "js_get (map Value deck) a"] by simp
  ultimately show ?thesis
    using a sw(2) by (simp add: applyShuffleStep_swap [OF sw] flip: xs_def)
qed

lemma applyShuffleStep_second_inside:
  assumes sw: "action step = Swap" "cardIndices step = [a, b]"
    and a: "\<not> (0 \<le> a \<and> a < int (length deck))"
    and b: "0 \<le> b" "b < int (length deck)"
  shows "applyShuffleStep deck step ! nat b = Bare b True"
proof -
  define xs where "xs = js_set (map Value deck) a (js_get (map Value deck) b)"
  have l: "b < int (length xs)"
    using b js_set_length [of "map Value deck" a "js_get (map Value deck) b"]
    by (simp add: xs_def)
  have "js_get (map Value deck) a = Undefined"
    using a by (simp add: js_get_outside)
  then have "js_set xs b (js_get (map Value deck) a) ! nat b = Undefined"
    using b l by (simp add: js_set_nth_same)
  moreover have "nat b < length (js_set xs b (js_get (map Value deck) a))"
    using b l js_set_length [of xs b "js_get (map Value deck) a"] by simp
  ultimately show ?thesis
    using b sw(2) by (simp add: applyShuffleStep_swap [OF sw] flip: xs_def)
qed

lemma applyShuffleStep_both_outside:
  assumes sw: "action step = Swap" "cardIndices step = [a, b]"
    and a: "\<not> (0 \<le> a \<and> a < int (length deck))"
    and b: "\<not> (0 \<le> b \<and> b < int (length deck))"
    and i: "i < length deck"
  shows "applyShuffleStep deck step ! i
       = Full ((deck ! i)\<lparr>position := int i, isHighlighted := False\<rparr>)"
proof -
  define xs where "xs = js_set (map Value deck) a (js_get (map Value deck) b)"
  have ia: "int i \<noteq> a" and ib: "int i \<noteq> b"
    using a b i by auto
  have l: "i < length xs"
    using i js_set_length [of "map Value deck" a "js_get (map Value deck) b"]
    by (simp add: xs_def)
  have "xs ! i = Value (deck ! i)"
    using i ia by (simp add: xs_def js_set_nth_other)
  then have "js_set xs b (js_get (map Value deck) a) ! i = Value (deck ! i)"
    using l ib by (simp add: js_set_nth_other)
  moreover have "i < length (js_set xs b (js_get (map Value deck) a))"
    using l js_set_length [of xs b "js_get (map Value deck) a"] by simp
  ultimately show ?thesis
    using ia ib sw(2) by (simp add: applyShuffleStep_swap [OF sw] flip: xs_def)
qed

text \<open>
  Claim C8 as stated: for some invalid input (an empty collection given to a shuffle, an
  unknown algorithm name, a step with an index out of range given to \<open>applyShuffleStep\<close>) the
  operations fail with an error and return no result. No input does that. For every random
  source the four shuffles return the empty deck for the empty deck and the four recorders
  return their list of steps; for every name \<open>getAlgorithmByName\<close> returns an algorithm of
  the table or \<^verbatim>\<open>undefined\<close>; for every deck and every step \<open>applyShuffleStep\<close> returns an array
  at least as long as the deck; and the swap of the index \<open>0\<close> with the index \<open>5\<close> in a deck of
  two cards returns the array of six entries below, of which two are cards.
\<close>

theorem invalid_input_counterexample:
  "\<forall>rnd n deck step.
     fisherYatesShuffle rnd [] = [] \<and> riffleShuffle rnd [] = []
     \<and> overhandShuffle rnd [] = [] \<and> hinduShuffle rnd [] = []
     \<and> fisherYatesShuffleSteps rnd [] = []
     \<and> riffleShuffleSteps rnd [] =
       [\<lparr>description = ''Step 1: Split deck at position 1 (0 cards left, 0 cards right)'',
         cardIndices = [], action = Split, fromPositions = [], toPositions = []\<rparr>]
     \<and> overhandShuffleSteps rnd [] = [] \<and> hinduShuffleSteps rnd [] = []
     \<and> getAlgorithmByName n =
         (if n = ''Fisher-Yates'' then Some (SHUFFLE_ALGORITHMS ! 0)
          else if n = ''Riffle Shuffle'' then Some (SHUFFLE_ALGORITHMS ! 1)
          else if n = ''Overhand Shuffle'' then Some (SHUFFLE_ALGORITHMS ! 2)
          else if n = ''Hindu Shuffle'' then Some (SHUFFLE_ALGORITHMS ! 3)
          else None)
     \<and> length deck \<le> length (applyShuffleStep deck step)
     \<and> applyShuffleStep
       [\<lparr>card_id = ''hearts-A'', suit = hearts, rank = A, position = 0, isHighlighted = False\<rparr>,
        \<lparr>card_id = ''hearts-2'', suit = hearts, rank = R2, position = 1, isHighlighted = False\<rparr>]
       \<lparr>description = ''Step 1: Swap card at position 0 with card at position 5'',
        cardIndices = [0, 5], action = Swap, fromPositions = [0, 5], toPositions = [5, 0]\<rparr>
     = [Bare 0 True,
        Full \<lparr>card_id = ''hearts-2'', suit = hearts, rank = R2, position = 1, isHighlighted = False\<rparr>,
        Missing, Missing, Missing,
        Full \<lparr>card_id = ''hearts-A'', suit = hearts, rank = A, position = 5, isHighlighted = True\<rparr>]"
proof (intro allI conjI)
  fix rnd :: "nat \<Rightarrow> draw" and n :: string and deck :: "Card list" and step :: ShuffleStep
  show "fisherYatesShuffle rnd [] = []" "riffleShuffle rnd [] = []"
    "overhandShuffle rnd [] = []" "hinduShuffle rnd [] = []"
    "fisherYatesShuffleSteps rnd [] = []"
    "overhandShuffleSteps rnd [] = []" "hinduShuffleSteps rnd [] = []"
    by (rule empty_deck_results)+
  show "riffleShuffleSteps rnd [] =
       [\<lparr>description = ''Step 1: Split deck at position 1 (0 cards left, 0 cards right)'',
         cardIndices = [], action = Split, fromPositions = [], toPositions = []\<rparr>]"
    by (rule empty_deck_results)
  show "getAlgorithmByName n =
         (if n = ''Fisher-Yates'' then Some (SHUFFLE_ALGORITHMS ! 0)
          else if n = ''Riffle Shuffle'' then Some (SHUFFLE_ALGORITHMS ! 1)
          else if n = ''Overhand Shuffle'' then Some (SHUFFLE_ALGORITHMS ! 2)
          else if n = ''Hindu Shuffle'' then Some (SHUFFLE_ALGORITHMS ! 3)
          else None)"
    by (rule getAlgorithmByName_table)
  show "length deck \<le> length (applyShuffleStep deck step)"
    by (rule applyShuffleStep_length_ge)
  show "applyShuffleStep
       [\<lparr>card_id = ''hearts-A'', suit = hearts, rank = A, position = 0, isHighlighted = False\<rparr>,
        \<lparr>card_id = ''hearts-2'', suit = hearts, rank = R2, position = 1, isHighlighted = False\<rparr>]
       \<lparr>description = ''Step 1: Swap card at position 0 with card at position 5'',
        cardIndices = [0, 5], action = Swap, fromPositions = [0, 5], toPositions = [5, 0]\<rparr>
     = [Bare 0 True,
        Full \<lparr>card_id = ''hearts-2'', suit = hearts, rank = R2, position = 1, isHighlighted = False\<rparr>,
        Missing, Missing, Missing,
        Full \<lparr>card_id = ''hearts-A'', suit = hearts, rank = A, position = 5, isHighlighted = True\<rparr>]"
    by (simp add: applyShuffleStep_def js_get_def js_set_def map_indexed_def Let_def
        numeral_3_eq_3)
qed

text \<open>
  Claim C8, as the code has it. No invalid input of the three kinds makes an operation fail;
  each returns a result. On the empty deck the four shuffles return the empty deck, and the
  four recorders return their steps: none, or the one \<open>Split\<close> step of the riffle shuffle.
  \<open>getAlgorithmByName\<close> returns \<^verbatim>\<open>undefined\<close> for every name that is not in the table. For
  every deck and every step with integer indices, whatever they are, \<open>applyShuffleStep\<close>
  returns an array at least as long as the deck. When the step is not a swap with exactly two
  indices, the array is the deck in its order, with the positions renumbered and the cards
  at the step's indices highlighted (an index outside the deck highlights nothing). When the
  step is a swap of the indices \<open>a\<close> and \<open>b\<close>: if \<open>a\<close> is inside the deck and \<open>b\<close> is not, the
  entry at \<open>a\<close> is an object without the fields of a card; if \<open>b\<close> is inside and \<open>a\<close> is not,
  the entry at \<open>b\<close> is such an object; if both are outside, every index of the deck keeps its
  card, not highlighted; and if \<open>a\<close> is inside and \<open>b\<close> is from the end of the deck on and
  below \<open>2^32 - 1\<close>, the array reaches the index \<open>b\<close>, where the card of \<open>a\<close> now is, with
  holes between the end of the deck and \<open>b\<close>.
\<close>

theorem invalid_input_is_not_refused:
  "fisherYatesShuffle rnd [] = [] \<and> riffleShuffle rnd [] = []
   \<and> overhandShuffle rnd [] = [] \<and> hinduShuffle rnd [] = []
   \<and> fisherYatesShuffleSteps rnd [] = []
   \<and> riffleShuffleSteps rnd [] =
       [\<lparr>description = ''Step 1: Split deck at position 1 (0 cards left, 0 cards right)'',
         cardIndices = [], action = Split, fromPositions = [], toPositions = []\<rparr>]
   \<and> overhandShuffleSteps rnd [] = [] \<and> hinduShuffleSteps rnd [] = []
   \<and> (n \<notin> {''Fisher-Yates'', ''Riffle Shuffle'', ''Overhand Shuffle'', ''Hindu Shuffle''}
        \<longrightarrow> getAlgorithmByName n = None)
   \<and> length deck \<le> length (applyShuffleStep deck step)
   \<and> (\<not> (action step = Swap \<and> length (cardIndices step) = 2) \<longrightarrow>
        applyShuffleStep deck step =
          map Full
            (map_indexed
              (\<lambda>c index. c\<lparr>position := int index,
                            isHighlighted := int index \<in> set (cardIndices step)\<rparr>)
              deck))
   \<and> (action step = Swap \<and> cardIndices step = [a, b] \<longrightarrow>
        ((0 \<le> a \<and> a < int (length deck)) \<and> \<not> (0 \<le> b \<and> b < int (length deck)) \<longrightarrow>
           applyShuffleStep deck step ! nat a = Bare a True)
      \<and> (\<not> (0 \<le> a \<and> a < int (length deck)) \<and> (0 \<le> b \<and> b < int (length deck)) \<longrightarrow>
           applyShuffleStep deck step ! nat b = Bare b True)
      \<and> (\<not> (0 \<le> a \<and> a < int (length deck)) \<and> \<not> (0 \<le> b \<and> b < int (length deck)) \<longrightarrow>
           (\<forall>i < length deck.
              applyShuffleStep deck step ! i
                = Full ((deck ! i)\<lparr>position := int i, isHighlighted := False\<rparr>)))
      \<and> ((0 \<le> a \<and> a < int (length deck)) \<and> int (length deck) \<le> b \<and> b < 4294967295 \<longrightarrow>
           length (applyShuffleStep deck step) = nat b + 1
           \<and> applyShuffleStep deck step ! nat b
               = Full ((deck ! nat a)\<lparr>position := b, isHighlighted := True\<rparr>)
           \<and> (\<forall>j. length deck \<le> j \<and> j < nat b \<longrightarrow> applyShuffleStep deck step ! j = Missing)))"
proof -
  have empty: "fisherYatesShuffle rnd [] = [] \<and> riffleShuffle rnd [] = []
   \<and> overhandShuffle rnd [] = [] \<and> hinduShuffle rnd [] = []
   \<and> fisherYatesShuffleSteps rnd [] = []
   \<and> riffleShuffleSteps rnd [] =
       [\<lparr>description = ''Step 1: Split deck at position 1 (0 cards left, 0 cards right)'',
         cardIndices = [], action = Split, fromPositions = [], toPositions = []\<rparr>]
   \<and> overhandShuffleSteps rnd [] = [] \<and> hinduShuffleSteps rnd [] = []"
    by (simp only: empty_deck_results simp_thms)
  have name: "n \<notin> {''Fisher-Yates'', ''Riffle Shuffle'', ''Overhand Shuffle'', ''Hindu Shuffle''}
        \<longrightarrow> getAlgorithmByName n = None"
    by (simp add: getAlgorithmByName_unknown)
  have len: "length deck \<le> length (applyShuffleStep deck step)"
    by (rule applyShuffleStep_length_ge)
  have other: "\<not> (action step = Swap \<and> length (cardIndices step) = 2) \<longrightarrow>
        applyShuffleStep deck step =
          map Full
            (map_indexed
              (\<lambda>c index. c\<lparr>position := int index,
                            isHighlighted := int index \<in> set (cardIndices step)\<rparr>)
              deck)"
    using applyShuffleStep_no_swap [of step deck] by blast
  have swap: "action step = Swap \<and> cardIndices step = [a, b] \<longrightarrow>
        ((0 \<le> a \<and> a < int (length deck)) \<and> \<not> (0 \<le> b \<and> b < int (length deck)) \<longrightarrow>
           applyShuffleStep deck step ! nat a = Bare a True)
      \<and> (\<not> (0 \<le> a \<and> a < int (length deck)) \<and> (0 \<le> b \<and> b < int (length deck)) \<longrightarrow>
           applyShuffleStep deck step ! nat b = Bare b True)
      \<and> (\<not> (0 \<le> a \<and> a < int (length deck)) \<and> \<not> (0 \<le> b \<and> b < int (length deck)) \<longrightarrow>
           (\<forall>i < length deck.
              applyShuffleStep deck step ! i
                = Full ((deck ! i)\<lparr>position := int i, isHighlighted := False\<rparr>)))
      \<and> ((0 \<le> a \<and> a < int (length deck)) \<and> int (length deck) \<le> b \<and> b < 4294967295 \<longrightarrow>
           length (applyShuffleStep deck step) = nat b + 1
           \<and> applyShuffleStep deck step ! nat b
               = Full ((deck ! nat a)\<lparr>position := b, isHighlighted := True\<rparr>)
           \<and> (\<forall>j. length deck \<le> j \<and> j < nat b \<longrightarrow> applyShuffleStep deck step ! j = Missing))"
  proof (intro impI conjI)
    assume sw: "action step = Swap \<and> cardIndices step = [a, b]"
    then have s: "action step = Swap" "cardIndices step = [a, b]"
      by simp_all
    {
      assume "(0 \<le> a \<and> a < int (length deck)) \<and> \<not> (0 \<le> b \<and> b < int (length deck))"
      then show "applyShuffleStep deck step ! nat a = Bare a True"
        using applyShuffleStep_first_inside [OF s] by blast
    }
    {
      assume "\<not> (0 \<le> a \<and> a < int (length deck)) \<and> (0 \<le> b \<and> b < int (length deck))"
      then show "applyShuffleStep deck step ! nat b = Bare b True"
        using applyShuffleStep_second_inside [OF s] by blast
    }
    {
      assume "\<not> (0 \<le> a \<and> a < int (length deck)) \<and> \<not> (0 \<le> b \<and> b < int (length deck))"
      then show "\<forall>i < length deck.
              applyShuffleStep deck step ! i
                = Full ((deck ! i)\<lparr>position := int i, isHighlighted := False\<rparr>)"
        using applyShuffleStep_both_outside [OF s] by blast
    }
    assume r: "(0 \<le> a \<and> a < int (length deck)) \<and> int (length deck) \<le> b \<and> b < 4294967295"
    then have ci: "cardIndices step = [int (nat a), int (nat b)]"
      using s by simp
    from r have i1: "nat a < length deck"
      by linarith
    from r have i2: "length deck \<le> nat b" "nat b < 4294967295"
      by linarith+
    from r have ib: "int (nat b) = b"
      by simp
    show "length (applyShuffleStep deck step) = nat b + 1"
      using ci s(1) i1 i2 by (rule applyShuffleStep_beyond_end(1))
    show "applyShuffleStep deck step ! nat b
               = Full ((deck ! nat a)\<lparr>position := b, isHighlighted := True\<rparr>)"
      using applyShuffleStep_beyond_end(3) [OF ci s(1) i1 i2] ib by simp
    show "\<forall>j. length deck \<le> j \<and> j < nat b \<longrightarrow> applyShuffleStep deck step ! j = Missing"
      using ci s(1) i1 i2 by (rule applyShuffleStep_beyond_end(4))
  qed
  from empty name len other swap show ?thesis
    by (intro conjI) (simp_all only:)
qed

text \<open>
  An unknown name; a deck of two cards with a \<open>Move\<close> step of the index \<open>7\<close>, and with the swaps
  of the indices \<open>0\<close> and \<open>5\<close>, \<open>-1\<close> and \<open>1\<close>, \<open>-1\<close> and \<open>7\<close>.
\<close>

theorem invalid_input_is_not_refused_witness:
  "getAlgorithmByName ''Bogosort'' = None
   \<and> applyShuffleStep
       [\<lparr>card_id = ''hearts-A'', suit = hearts, rank = A, position = 0, isHighlighted = False\<rparr>,
        \<lparr>card_id = ''hearts-2'', suit = hearts, rank = R2, position = 1, isHighlighted = False\<rparr>]
       \<lparr>description = ''Step 1: Move card from position 7 to position 0'',
        cardIndices = [7], action = Move, fromPositions = [7], toPositions = [0]\<rparr>
     = map Full
       [\<lparr>card_id = ''hearts-A'', suit = hearts, rank = A, position = 0, isHighlighted = False\<rparr>,
        \<lparr>card_id = ''hearts-2'', suit = hearts, rank = R2, position = 1, isHighlighted = False\<rparr>]
   \<and> applyShuffleStep
       [\<lparr>card_id = ''hearts-A'', suit = hearts, rank = A, position = 0, isHighlighted = False\<rparr>,
        \<lparr>card_id = ''hearts-2'', suit = hearts, rank = R2, position = 1, isHighlighted = False\<rparr>]
       \<lparr>description = ''Step 1: Swap card at position 0 with card at position 5'',
        cardIndices = [0, 5], action = Swap, fromPositions = [0, 5], toPositions = [5, 0]\<rparr> ! 0
     = Bare 0 True
   \<and> length (applyShuffleStep
       [\<lparr>card_id = ''hearts-A'', suit = hearts, rank = A, position = 0, isHighlighted = False\<rparr>,
        \<lparr>card_id = ''hearts-2'', suit = hearts, rank = R2, position = 1, isHighlighted = False\<rparr>]
       \<lparr>description = ''Step 1: Swap card at position 0 with card at position 5'',
        cardIndices = [0, 5], action = Swap, fromPositions = [0, 5], toPositions = [5, 0]\<rparr>) = 6
   \<and> applyShuffleStep
       [\<lparr>card_id = ''hearts-A'', suit = hearts, rank = A, position = 0, isHighlighted = False\<rparr>,
        \<lparr>card_id = ''hearts-2'', suit = hearts, rank = R2, position = 1, isHighlighted = False\<rparr>]
       \<lparr>description = ''Step 1: Swap card at position -1 with card at position 1'',
        cardIndices = [- 1, 1], action = Swap, fromPositions = [- 1, 1], toPositions = [1, - 1]\<rparr> ! 1
     = Bare 1 True
   \<and> applyShuffleStep
       [\<lparr>card_id = ''hearts-A'', suit = hearts, rank = A, position = 0, isHighlighted = False\<rparr>,
        \<lparr>card_id = ''hearts-2'', suit = hearts, rank = R2, position = 1, isHighlighted = False\<rparr>]
       \<lparr>description = ''Step 1: Swap card at position -1 with card at position 7'',
        cardIndices = [- 1, 7], action = Swap, fromPositions = [- 1, 7], toPositions = [7, - 1]\<rparr> ! 0
     = Full \<lparr>card_id = ''hearts-A'', suit = hearts, rank = A, position = 0, isHighlighted = False\<rparr>"
    (is "_ \<and> applyShuffleStep ?deck ?move = _ \<and> applyShuffleStep ?deck ?s05 ! 0 = _
       \<and> length (applyShuffleStep ?deck ?s05) = 6 \<and> applyShuffleStep ?deck ?s11 ! 1 = _
       \<and> applyShuffleStep ?deck ?s17 ! 0 = _")
proof -
  have 1: "getAlgorithmByName ''Bogosort'' = None"
    using invalid_input_is_not_refused [of "\<lambda>k. Abs_draw 0" "''Bogosort''" ?deck ?move 0 0]
    by simp
  have 2: "applyShuffleStep ?deck ?move = map Full ?deck"
    using invalid_input_is_not_refused [of "\<lambda>k. Abs_draw 0" "''Bogosort''" ?deck ?move 0 0]
    by (simp add: map_indexed_def)
  have 3: "applyShuffleStep ?deck ?s05 ! 0 = Bare 0 True
      \<and> length (applyShuffleStep ?deck ?s05) = 6"
    using invalid_input_is_not_refused [of "\<lambda>k. Abs_draw 0" "''Bogosort''" ?deck ?s05 0 5]
    by simp
  have 4: "applyShuffleStep ?deck ?s11 ! 1 = Bare 1 True"
    using invalid_input_is_not_refused [of "\<lambda>k. Abs_draw 0" "''Bogosort''" ?deck ?s11 "- 1" 1]
    by simp
  have 5: "applyShuffleStep ?deck ?s17 ! 0
      = Full \<lparr>card_id = ''hearts-A'', suit = hearts, rank = A, position = 0, isHighlighted = False\<rparr>"
    using invalid_input_is_not_refused [of "\<lambda>k. Abs_draw 0" "''Bogosort''" ?deck ?s17 "- 1" 7]
    by simp
  from 1 2 3 4 5 show ?thesis
    by (intro conjI) simp_all
qed

section \<open>Fisher-Yates reaches every ordering once\<close>

lemma fisherYates_loop_trace:
  "fisherYates_loop rnd k i xs = apply_trace (fisherYates_trace rnd k i) i xs"
  by (induction i arbitrary: k xs) (simp_all add: Let_def)

lemma fisherYates_trace_valid: "valid_trace i (fisherYates_trace rnd k i)"
proof (induction i arbitrary: k)
  case 0
  show ?case by simp
next
  case (Suc i)
  have "random_below (rnd k) (Suc i + 1) < Suc i + 1"
    by (rule random_below_less) simp
  with Suc show ?case
    by simp
qed

lemma valid_trace_length: "valid_trace i js \<Longrightarrow> length js = i"
  by (induction i js rule: valid_trace.induct) simp_all

lemma random_below_fraction:
  assumes "j < n"
  shows "random_below (Abs_draw (real j / real n)) n = j"
proof -
  have "0 \<le> real j / real n" "real j / real n < 1"
    using assms by simp_all
  then have "draw_val (Abs_draw (real j / real n)) = real j / real n"
    by (simp add: Abs_draw_inverse)
  moreover have "real j / real n * real n = real j"
    using assms by simp
  ultimately show ?thesis
    by (simp add: random_below_def)
qed

lemma fisherYates_trace_from_draws:
  assumes "valid_trace i js" "\<forall>t < i. random_below (rnd (k + t)) (i - t + 1) = js ! t"
  shows "fisherYates_trace rnd k i = js"
  using assms
proof (induction i arbitrary: k js)
  case 0
  then show ?case by simp
next
  case (Suc i)
  from Suc.prems(1) obtain j js' where js: "js = j # js'" "j \<le> Suc i" "valid_trace i js'"
    by (cases js) simp_all
  from Suc.prems(2) [rule_format, of 0] js have first: "random_below (rnd k) (Suc i + 1) = j"
    by simp
  have "\<forall>t < i. random_below (rnd (Suc k + t)) (i - t + 1) = js' ! t"
  proof (intro allI impI)
    fix t assume "t < i"
    with Suc.prems(2) [rule_format, of "Suc t"] js show
      "random_below (rnd (Suc k + t)) (i - t + 1) = js' ! t"
      by simp
  qed
  from Suc.IH [OF js(3) this] first js show ?case
    by simp
qed

lemma every_trace_is_drawn:
  assumes "valid_trace i js"
  shows "\<exists>rnd. fisherYates_trace rnd 0 i = js"
proof -
  define rnd where "rnd = (\<lambda>k. Abs_draw (real (js ! k) / real (i - k + 1)))"
  have bound: "js ! t < i - t + 1" if "valid_trace i js" "t < i" for t i and js :: "nat list"
    using that
  proof (induction i js arbitrary: t rule: valid_trace.induct)
    case (3 i j js)
    then show ?case
      by (cases t) auto
  qed simp_all
  have "\<forall>t < i. random_below (rnd (0 + t)) (i - t + 1) = js ! t"
  proof (intro allI impI)
    fix t assume "t < i"
    with assms have "js ! t < i - t + 1"
      by (rule bound)
    then have "random_below (Abs_draw (real (js ! t) / real (i - t + 1))) (i - t + 1) = js ! t"
      by (rule random_below_fraction)
    then show "random_below (rnd (0 + t)) (i - t + 1) = js ! t"
      by (simp only: rnd_def add_0)
  qed
  with assms have "fisherYates_trace rnd 0 i = js"
    by (rule fisherYates_trace_from_draws)
  then show ?thesis
    by blast
qed

lemma swap_at_append:
  "a < length ys \<Longrightarrow> b < length ys \<Longrightarrow> swap_at (ys @ [y]) a b = swap_at ys a b @ [y]"
  by (simp add: swap_at_def nth_append list_update_append)

lemma apply_trace_append:
  assumes "valid_trace i js" "i < length ys"
  shows "apply_trace js i (ys @ [y]) = apply_trace js i ys @ [y]"
  using assms
proof (induction i js arbitrary: ys rule: valid_trace.induct)
  case (3 i j js)
  then have "swap_at (ys @ [y]) (Suc i) j = swap_at ys (Suc i) j @ [y]"
    by (intro swap_at_append) simp_all
  with 3 show ?case
    by simp
qed simp_all

lemma swap_at_last:
  assumes "length xs = Suc m" "j \<le> m"
  shows "swap_at xs m j = butlast (swap_at xs m j) @ [xs ! j]"
proof -
  have ne: "swap_at xs m j \<noteq> []"
    using assms by (auto simp add: swap_at_def)
  moreover have "last (swap_at xs m j) = swap_at xs m j ! m"
    using last_conv_nth [OF ne] assms by simp
  moreover have "swap_at xs m j ! m = xs ! j"
    using assms by (simp add: nth_swap_at)
  ultimately show ?thesis
    by (metis append_butlast_last_id)
qed

lemma apply_trace_Cons:
  assumes "valid_trace (Suc i) (j # js)" "length xs = Suc (Suc i)"
  shows "apply_trace (j # js) (Suc i) xs
       = apply_trace js i (butlast (swap_at xs (Suc i) j)) @ [xs ! j]"
proof -
  from assms have j: "j \<le> Suc i" and v: "valid_trace i js"
    by simp_all
  have "i < length (butlast (swap_at xs (Suc i) j))"
    using assms(2) by simp
  with v have "apply_trace js i (butlast (swap_at xs (Suc i) j) @ [xs ! j])
      = apply_trace js i (butlast (swap_at xs (Suc i) j)) @ [xs ! j]"
    by (rule apply_trace_append)
  with swap_at_last [OF assms(2) j] show ?thesis
    by simp
qed

lemma apply_trace_mset:
  assumes "valid_trace i js" "i < length xs"
  shows "mset (apply_trace js i xs) = mset xs"
  using assms
  by (induction i js arbitrary: xs rule: valid_trace.induct) (simp_all add: mset_swap_at)

lemma apply_trace_map:
  assumes "valid_trace i js" "i < length xs"
  shows "map f (apply_trace js i xs) = apply_trace js i (map f xs)"
  using assms
  by (induction i js arbitrary: xs rule: valid_trace.induct)
    (simp_all add: swap_at_def map_update)

lemma butlast_swap_at_mset:
  assumes "length xs = Suc m" "j \<le> m"
  shows "mset (butlast (swap_at xs m j)) = mset xs - {#xs ! j#}"
proof -
  have "mset (butlast (swap_at xs m j) @ [xs ! j]) = mset xs"
    using swap_at_last [OF assms] mset_swap_at [of m xs j] assms by simp
  then have "mset xs - {#xs ! j#} = mset (butlast (swap_at xs m j) @ [xs ! j]) - {#xs ! j#}"
    by (rule arg_cong [where f = "\<lambda>M. M - {#xs ! j#}", symmetric])
  also have "\<dots> = mset (butlast (swap_at xs m j))"
    by simp
  finally show ?thesis
    by (rule sym)
qed

lemma apply_trace_inj:
  assumes "distinct xs" "length xs = Suc i" "valid_trace i js" "valid_trace i js'"
    "apply_trace js i xs = apply_trace js' i xs"
  shows "js = js'"
  using assms
proof (induction i arbitrary: xs js js')
  case 0
  then show ?case by simp
next
  case (Suc i)
  from Suc.prems(3) obtain j t where js: "js = j # t" "j \<le> Suc i" "valid_trace i t"
    by (cases js) simp_all
  from Suc.prems(4) obtain j' t' where js': "js' = j' # t'" "j' \<le> Suc i" "valid_trace i t'"
    by (cases js') simp_all
  have v: "valid_trace (Suc i) (j # t)" "valid_trace (Suc i) (j' # t')"
    using js js' by simp_all
  have "apply_trace (j # t) (Suc i) xs = apply_trace (j' # t') (Suc i) xs"
    using Suc.prems(5) by (simp only: js(1) js'(1))
  then have e: "apply_trace t i (butlast (swap_at xs (Suc i) j)) @ [xs ! j]
      = apply_trace t' i (butlast (swap_at xs (Suc i) j')) @ [xs ! j']"
    by (simp only: apply_trace_Cons [OF v(1) Suc.prems(2)] apply_trace_Cons [OF v(2) Suc.prems(2)])
  then have "xs ! j = xs ! j'"
    by simp
  with Suc.prems(1,2) js(2) js'(2) have jj: "j = j'"
    by (simp add: nth_eq_iff_index_eq)
  let ?ys = "butlast (swap_at xs (Suc i) j)"
  have "mset (swap_at xs (Suc i) j) = mset xs"
    using Suc.prems(2) js(2) by (simp add: mset_swap_at)
  with Suc.prems(1) have "distinct (swap_at xs (Suc i) j)"
    by (metis mset_eq_imp_distinct_iff)
  then have d: "distinct ?ys"
    by (rule distinct_butlast)
  have l: "length ?ys = Suc i"
    using Suc.prems(2) by simp
  from e jj have "apply_trace t i ?ys = apply_trace t' i ?ys"
    by simp
  from Suc.IH [OF d l js(3) js'(3) this] jj js(1) js'(1) show ?case
    by simp
qed

lemma apply_trace_surj:
  assumes "length xs = Suc i" "mset ys = mset xs"
  shows "\<exists>js. valid_trace i js \<and> apply_trace js i xs = ys"
  using assms
proof (induction i arbitrary: xs ys)
  case 0
  then obtain x where "xs = [x]"
    by (cases xs) simp_all
  with 0 have "ys = xs"
    by simp
  then show ?case
    by (intro exI [of _ "[]"]) simp
next
  case (Suc i)
  have ly: "length ys = Suc (Suc i)"
    using Suc.prems by (metis size_mset)
  then have ys: "ys = butlast ys @ [last ys]"
    by (cases ys rule: rev_cases) simp_all
  have "last ys \<in> set ys"
    using ly by (cases ys rule: rev_cases) simp_all
  then have "last ys \<in> set xs"
    using Suc.prems(2) by (metis set_mset_mset)
  then obtain j where j: "j < length xs" "xs ! j = last ys"
    by (auto simp add: in_set_conv_nth)
  with Suc.prems(1) have j': "j \<le> Suc i"
    by simp
  let ?zs = "butlast (swap_at xs (Suc i) j)"
  have "mset ?zs = mset xs - {#xs ! j#}"
    using Suc.prems(1) j' by (rule butlast_swap_at_mset)
  also have "\<dots> = mset ys - {#last ys#}"
    using Suc.prems(2) j(2) by simp
  also have "\<dots> = mset (butlast ys)"
    by (subst (1) ys) simp
  finally have m: "mset (butlast ys) = mset ?zs"
    by simp
  have l: "length ?zs = Suc i"
    using Suc.prems(1) by simp
  from Suc.IH [OF l m] obtain js where js: "valid_trace i js" "apply_trace js i ?zs = butlast ys"
    by blast
  have v: "valid_trace (Suc i) (j # js)"
    using js(1) j' by simp
  have "apply_trace (j # js) (Suc i) xs = butlast ys @ [last ys]"
    using apply_trace_Cons [OF v Suc.prems(1)] js(2) j(2) by simp
  with ys v show ?case
    by metis
qed

lemma apply_trace_bij:
  assumes "distinct xs" "length xs = Suc i"
  shows "bij_betw (\<lambda>js. apply_trace js i xs) {js. valid_trace i js} {ys. mset ys = mset xs}"
  unfolding bij_betw_def
proof
  show "inj_on (\<lambda>js. apply_trace js i xs) {js. valid_trace i js}"
    using assms by (auto intro!: inj_onI elim: apply_trace_inj)
  show "(\<lambda>js. apply_trace js i xs) ` {js. valid_trace i js} = {ys. mset ys = mset xs}"
  proof (intro equalityI subsetI)
    fix ys assume "ys \<in> (\<lambda>js. apply_trace js i xs) ` {js. valid_trace i js}"
    then show "ys \<in> {ys. mset ys = mset xs}"
      using assms(2) by (auto simp add: apply_trace_mset)
  next
    fix ys assume "ys \<in> {ys. mset ys = mset xs}"
    then have "mset ys = mset xs"
      by simp
    from apply_trace_surj [OF assms(2) this] show
      "ys \<in> (\<lambda>js. apply_trace js i xs) ` {js. valid_trace i js}"
      by auto
  qed
qed

lemma valid_trace_Suc_set:
  "{js. valid_trace (Suc i) js} = (\<lambda>(j, js). j # js) ` ({..Suc i} \<times> {js. valid_trace i js})"
proof (intro equalityI subsetI)
  fix js assume "js \<in> {js. valid_trace (Suc i) js}"
  then obtain j t where "js = j # t" "j \<le> Suc i" "valid_trace i t"
    by (cases js) simp_all
  then show "js \<in> (\<lambda>(j, js). j # js) ` ({..Suc i} \<times> {js. valid_trace i js})"
    by auto
next
  fix js assume "js \<in> (\<lambda>(j, js). j # js) ` ({..Suc i} \<times> {js. valid_trace i js})"
  then show "js \<in> {js. valid_trace (Suc i) js}"
    by auto
qed

lemma valid_trace_count: "finite {js. valid_trace i js} \<and> card {js. valid_trace i js} = fact (Suc i)"
proof (induction i)
  case 0
  have "{js. valid_trace 0 js} = {[]}"
    by auto
  then show ?case
    by simp
next
  case (Suc i)
  have inj: "inj_on (\<lambda>(j, js). j # js) ({..Suc i} \<times> {js. valid_trace i js})"
    by (auto intro!: inj_onI)
  have "card {js. valid_trace (Suc i) js} = card ({..Suc i} \<times> {js. valid_trace i js})"
    by (simp only: valid_trace_Suc_set card_image [OF inj])
  also have "\<dots> = Suc (Suc i) * fact (Suc i)"
    using Suc by (simp only: card_cartesian_product card_atMost)
  finally have "card {js. valid_trace (Suc i) js} = fact (Suc (Suc i))"
    by simp
  moreover have "finite {js. valid_trace (Suc i) js}"
    using Suc by (simp only: valid_trace_Suc_set) simp
  ultimately show ?case
    by blast
qed

lemma distinct_card_order:
  assumes "distinct (map card_id deck)"
  shows "distinct (card_order deck)"
proof -
  have "map fst (card_order deck) = map card_id deck"
    by (simp add: card_order_def)
  with assms show ?thesis
    by (metis distinct_map)
qed

lemma apply_trace_nth:
  assumes "valid_trace i js" "i < length ys"
  shows "apply_trace js i ys = map ((!) ys) (apply_trace js i [0..<length ys])"
proof -
  have "map ((!) ys) (apply_trace js i [0..<length ys])
      = apply_trace js i (map ((!) ys) [0..<length ys])"
    using assms by (intro apply_trace_map) simp_all
  then show ?thesis
    by (simp add: map_nth)
qed

text \<open>
  Claim C3. For a deck of \<open>N \<ge> 1\<close> cards: whatever the random source, \<open>fisherYatesShuffle\<close>
  makes the swaps of the trace it draws, at the indices \<open>N - 1\<close> down to \<open>1\<close>, each with an
  index between \<open>0\<close> and the loop index, so that its result holds at each place the card of
  the place the swaps bring there; every such trace is drawn by some random source; and the
  map from the valid traces to the orderings of the \<open>N\<close> places is a bijection between two sets
  of \<open>N!\<close> elements. When the ids of the cards are distinct, the map from the valid traces to
  the orderings of the cards is a bijection as well. So each ordering is the result of exactly
  one of \<open>N!\<close> traces, which are equally likely when every index is drawn uniformly and
  independently.
\<close>

theorem fisherYates_uniform:
  assumes "deck \<noteq> []"
  shows "(\<forall>rnd. valid_trace (length deck - 1) (fisherYates_trace rnd 0 (length deck - 1))
            \<and> card_order (fisherYatesShuffle rnd deck)
              = map ((!) (card_order deck))
                  (apply_trace (fisherYates_trace rnd 0 (length deck - 1)) (length deck - 1)
                    [0..<length deck]))
       \<and> (\<forall>js. valid_trace (length deck - 1) js
            \<longrightarrow> (\<exists>rnd. fisherYates_trace rnd 0 (length deck - 1) = js))
       \<and> bij_betw (\<lambda>js. apply_trace js (length deck - 1) [0..<length deck])
           {js. valid_trace (length deck - 1) js} {p. mset p = mset [0..<length deck]}
       \<and> card {js. valid_trace (length deck - 1) js} = fact (length deck)
       \<and> card {p. mset p = mset [0..<length deck]} = fact (length deck)
       \<and> (distinct (map card_id deck) \<longrightarrow>
            bij_betw (\<lambda>js. apply_trace js (length deck - 1) (card_order deck))
              {js. valid_trace (length deck - 1) js} {p. mset p = mset (card_order deck)})"
proof -
  define i where "i = length deck - 1"
  have len: "length deck = Suc i"
    using assms by (cases deck) (simp_all add: i_def)
  have order: "card_order (fisherYatesShuffle rnd deck)
      = map ((!) (card_order deck))
          (apply_trace (fisherYates_trace rnd 0 i) i [0..<length deck])" for rnd
  proof -
    have "card_order (fisherYatesShuffle rnd deck)
        = card_order (apply_trace (fisherYates_trace rnd 0 i) i deck)"
      by (simp add: fisherYatesShuffle_def card_order_map_indexed fisherYates_loop_trace i_def)
    also have "\<dots> = apply_trace (fisherYates_trace rnd 0 i) i (card_order deck)"
      unfolding card_order_def
      by (rule apply_trace_map) (simp_all add: fisherYates_trace_valid len)
    also have "\<dots> = map ((!) (card_order deck))
          (apply_trace (fisherYates_trace rnd 0 i) i [0..<length (card_order deck)])"
      by (rule apply_trace_nth) (simp_all add: fisherYates_trace_valid len)
    finally show ?thesis
      by simp
  qed
  have bij: "bij_betw (\<lambda>js. apply_trace js i [0..<length deck])
           {js. valid_trace i js} {p. mset p = mset [0..<length deck]}"
    using len by (intro apply_trace_bij) simp_all
  have count: "card {js. valid_trace i js} = fact (length deck)"
    using valid_trace_count [of i] len by simp
  have perms: "card {p. mset p = mset [0..<length deck]} = fact (length deck)"
    using bij_betw_same_card [OF bij] count by simp
  have cards: "bij_betw (\<lambda>js. apply_trace js i (card_order deck))
           {js. valid_trace i js} {p. mset p = mset (card_order deck)}"
    if "distinct (map card_id deck)"
    using that len by (intro apply_trace_bij distinct_card_order) simp_all
  from order bij count perms cards show ?thesis
    unfolding i_def [symmetric]
    by (auto simp add: fisherYates_trace_valid every_trace_is_drawn)
qed

text \<open>Three cards: six orderings, and the run in which every draw is \<open>0\<close>.\<close>

theorem fisherYates_uniform_witness:
  "card {p. mset p = mset [0, 1, 2 :: nat]} = 6
   \<and> card_order (fisherYatesShuffle (\<lambda>k. Abs_draw 0)
       [\<lparr>card_id = ''hearts-A'', suit = hearts, rank = A, position = 0, isHighlighted = False\<rparr>,
        \<lparr>card_id = ''hearts-2'', suit = hearts, rank = R2, position = 1, isHighlighted = False\<rparr>,
        \<lparr>card_id = ''hearts-3'', suit = hearts, rank = R3, position = 2, isHighlighted = False\<rparr>])
     = [(''hearts-2'', hearts, R2), (''hearts-3'', hearts, R3), (''hearts-A'', hearts, A)]"
    (is "?count \<and> card_order (fisherYatesShuffle ?rnd ?deck) = ?order")
proof -
  have h: "?deck \<noteq> []"
    by simp
  note u = fisherYates_uniform [OF h]
  have l: "[0..<length ?deck] = [0, 1, 2]"
    by (simp add: upt_rec numeral_2_eq_2)
  have f: "fact (length ?deck) = (6::nat)"
    by (simp add: fact_numeral numeral_3_eq_3)
  from u have "card {p. mset p = mset [0..<length ?deck]} = fact (length ?deck)"
    by blast
  then have ?count
    unfolding l f .
  moreover from u have "card_order (fisherYatesShuffle ?rnd ?deck)
      = map ((!) (card_order ?deck))
          (apply_trace (fisherYates_trace ?rnd 0 (length ?deck - 1)) (length ?deck - 1)
            [0..<length ?deck])"
    by blast
  then have "card_order (fisherYatesShuffle ?rnd ?deck) = ?order"
    by (simp add: card_order_def swap_at_def upt_rec)
  ultimately show ?thesis
    by blast
qed

end
